theory Spec2Isabelle
  imports Complex_Main "HOL-Library.AList"
begin

section \<open>Data model of the position manager\<close>

text \<open>
  The embedding follows \<^verbatim>\<open>services/position_manager.go\<close> and the structures of
  \<^verbatim>\<open>interfaces/trading.go\<close> it uses.

  \<^item> Go's \<^verbatim>\<open>float64\<close> is idealised as \<open>real\<close>: arithmetic is exact and there is no
    infinity or NaN. Where Go divides by zero (the quotient is an infinity or NaN) HOL's
    \<open>x / 0 = 0\<close> differs, so no statement speaks of a percentage computed from a zero
    price.
  \<^item> The one place where rounding changes more than the last digit is the division under
    \<^verbatim>\<open>math.Floor\<close> in \<^verbatim>\<open>calculateQuantity\<close>: the floor of the rounded quotient can differ
    from the floor of the exact one by a whole share. That division is therefore not the
    division of the reals but \<open>quo64\<close>, the \<^verbatim>\<open>float64\<close> quotient of the machine, which the
    model takes as given.
  \<^item> \<^verbatim>\<open>time.Time\<close> is an \<open>int\<close>, the nanoseconds since the epoch; one operation reads
    one clock value (\<open>now\<close>).
  \<^item> a nil-able pointer is an \<open>option\<close>.
  \<^item> Statuses, sides and order types are strings, as in the source.
\<close>

record PartialExitConfig =
  Enabled :: bool
  Percent :: real
  TargetPercent :: real
  TargetPrice :: real

record ManagedPosition =
  ID :: string
  Symbol :: string
  Side :: string
  Strategy :: string
  Quantity :: real
  EntryPrice :: real
  EntryOrderID :: string
  EntryOrderType :: string
  AllocationDollars :: real
  StopLossPrice :: real
  StopLossPercent :: real
  StopLossOrderID :: string
  TrailingStop :: bool
  TrailingPercent :: real
  TakeProfitPrice :: real
  TakeProfitPercent :: real
  TakeProfitOrderID :: string
  PartialExit :: "PartialExitConfig option"
  PartialExitOrders :: "string list"
  Status :: string
  CurrentPrice :: real
  UnrealizedPL :: real
  UnrealizedPLPC :: real
  RemainingQty :: real
  CreatedAt :: int
  UpdatedAt :: int
  ClosedAt :: "int option"
  Notes :: string
  Tags :: "string list"

text \<open>The fields of \<^verbatim>\<open>PlaceManagedPositionRequest\<close>, prefixed with \<open>req\<close>.\<close>

record PlaceManagedPositionRequest =
  reqSymbol :: string
  reqSide :: string
  reqStrategy :: string
  reqAllocationDollars :: real
  reqEntryStrategy :: string
  reqEntryPrice :: "real option"
  reqStopLossPrice :: "real option"
  reqStopLossPercent :: "real option"
  reqTrailingStop :: bool
  reqTrailingPercent :: real
  reqTakeProfitPrice :: "real option"
  reqTakeProfitPercent :: "real option"
  reqPartialExit :: "PartialExitConfig option"
  reqNotes :: string
  reqTags :: "string list"

text \<open>\<^verbatim>\<open>interfaces.Order\<close>; the fields that clash with the position's are prefixed.\<close>

record Order =
  OrderIdent :: string
  OrderSymbol :: string
  Qty :: real
  OrderSide :: string
  Type :: string
  TimeInForce :: string
  LimitPrice :: "real option"
  StopPrice :: "real option"
  OrderStatus :: string
  FilledQty :: real
  FilledAvgPrice :: "real option"
  SubmittedAt :: int
  FilledAt :: "int option"
  CanceledAt :: "int option"

record OrderResult =
  OrderID :: string
  ResultStatus :: string
  Message :: string

record Quote =
  QuoteSymbol :: string
  BidPrice :: real
  AskPrice :: real

section \<open>The collaborators and the effects\<close>

text \<open>
  The broker (\<^verbatim>\<open>TradingService\<close>), the market data service and the store are
  interfaces. Their answers during one operation (one request, or one supervisor pass) are
  an \<open>env\<close>, a function of the call's argument: \<open>None\<close> (or \<open>False\<close>) is a call that
  returned an error. Successive passes each take an \<open>env\<close> of their own, so the broker's
  view may change between passes. Every call the manager makes is appended to a
  chronological list of events, whatever its answer; a successful save also updates
  \<open>db\<close>, the persisted rows by position id (a row is modelled by the record saved).

  \<open>quo64 a b\<close> is the machine's \<^verbatim>\<open>float64\<close> quotient \<^verbatim>\<open>a / b\<close>: \<open>Some q\<close> when it is the
  finite number \<open>q\<close> (the exact quotient rounded to the nearest \<^verbatim>\<open>float64\<close>), \<open>None\<close>
  when it is an infinity or NaN (division by zero, overflow).
\<close>

record env =
  PlaceOrder :: "Order \<Rightarrow> OrderResult option"
  CancelOrder :: "string \<Rightarrow> bool"
  GetOrder :: "string \<Rightarrow> Order option"
  GetLatestQuote :: "string \<Rightarrow> Quote option"
  SaveManagedPosition :: "ManagedPosition \<Rightarrow> bool"
  quo64 :: "real \<Rightarrow> real \<Rightarrow> real option"
  now :: int

datatype event =
    QuoteRequested string
  | OrderSubmitted Order
  | CancelRequested string
  | OrderPolled string
  | SaveRequested ManagedPosition

record effects =
  db :: "string \<rightharpoonup> ManagedPosition"
  events :: "event list"

text \<open>
  The manager's state: the working set \<^verbatim>\<open>pm.positions\<close> (a Go map, here an association
  list whose order is the iteration order of a pass) and the effects so far.
\<close>

record manager =
  positions :: "(string \<times> ManagedPosition) list"
  fx :: effects

text \<open>The four errors of \<^verbatim>\<open>validateRequest\<close>, in the order of its checks.\<close>

datatype invalid =
    SideNotBuyOrSell
  | EntryPriceRequired
  | StopLossRequired
  | TakeProfitRequired

datatype failure =
    InvalidRequest invalid
  | PriceUnavailable
  | EntryOrderFailed
  | PositionNotFound string
  | NilPointerDereference

definition emit :: "event \<Rightarrow> effects \<Rightarrow> effects" where
  "emit e f = f\<lparr>events := events f @ [e]\<rparr>"

section \<open>Helper functions of the source\<close>

definition validateRequest :: "PlaceManagedPositionRequest \<Rightarrow> invalid option" where
  "validateRequest req =
     (if reqSide req \<noteq> ''buy'' \<and> reqSide req \<noteq> ''sell''
        then Some SideNotBuyOrSell
      else if reqEntryStrategy req = ''limit'' \<and> reqEntryPrice req = None
        then Some EntryPriceRequired
      else if reqStopLossPrice req = None \<and> reqStopLossPercent req = None
        then Some StopLossRequired
      else if reqTakeProfitPrice req = None \<and> reqTakeProfitPercent req = None
        then Some TakeProfitRequired
      else None)"

definition getCurrentPrice :: "env \<Rightarrow> effects \<Rightarrow> string \<Rightarrow> effects \<times> real option" where
  "getCurrentPrice E f symbol =
     (let f1 = emit (QuoteRequested symbol) f in
      case GetLatestQuote E symbol of
        None \<Rightarrow> (f1, None)
      | Some quote \<Rightarrow>
          (f1, Some (if AskPrice quote > 0 then AskPrice quote else BidPrice quote)))"

text \<open>
  \<^verbatim>\<open>math.Floor(allocation / price)\<close>, the division being the machine's. \<^verbatim>\<open>math.Floor\<close>
  returns an infinity or NaN unchanged; a \<open>real\<close> cannot hold either, so the model then
  carries 0 (as HOL's \<open>x / 0 = 0\<close> does for the other divisions) and no statement covers
  that case.
\<close>

definition calculateQuantity :: "env \<Rightarrow> real \<Rightarrow> real \<Rightarrow> real" where
  "calculateQuantity E allocation price =
     (case quo64 E allocation price of None \<Rightarrow> 0 | Some q \<Rightarrow> of_int \<lfloor>q\<rfloor>)"

definition calculateStopLoss ::
  "real \<Rightarrow> real option \<Rightarrow> real option \<Rightarrow> string \<Rightarrow> failure + real" where
  "calculateStopLoss entryPrice stopPrice stopPercent side =
     (case stopPrice of
        Some sp \<Rightarrow> Inr sp
      | None \<Rightarrow>
          (case stopPercent of
             None \<Rightarrow> Inl NilPointerDereference
           | Some pct \<Rightarrow>
               if side = ''buy'' then Inr (entryPrice * (1 - pct / 100))
               else Inr (entryPrice * (1 + pct / 100))))"

definition calculateTakeProfit ::
  "real \<Rightarrow> real option \<Rightarrow> real option \<Rightarrow> string \<Rightarrow> failure + real" where
  "calculateTakeProfit entryPrice profitPrice profitPercent side =
     (case profitPrice of
        Some pp \<Rightarrow> Inr pp
      | None \<Rightarrow>
          (case profitPercent of
             None \<Rightarrow> Inl NilPointerDereference
           | Some pct \<Rightarrow>
               if side = ''buy'' then Inr (entryPrice * (1 + pct / 100))
               else Inr (entryPrice * (1 - pct / 100))))"

definition calculatePartialExitPrice :: "real \<Rightarrow> real \<Rightarrow> string \<Rightarrow> real" where
  "calculatePartialExitPrice entryPrice targetPercent side =
     (if side = ''buy'' then entryPrice * (1 + targetPercent / 100)
      else entryPrice * (1 - targetPercent / 100))"

text \<open>\<^verbatim>\<open>fmt.Sprintf("pos_%d", time.Now().UnixNano())\<close>: the decimal digits of the clock.\<close>

fun decimal :: "nat \<Rightarrow> string" where
  "decimal n =
     (if n < 10 then [''0123456789'' ! n]
      else decimal (n div 10) @ [''0123456789'' ! (n mod 10)])"

definition generatePositionID :: "int \<Rightarrow> string" where
  "generatePositionID t =
     ''pos_'' @ (if t < 0 then ''-'' @ decimal (nat (- t)) else decimal (nat t))"

definition savePositionToDB :: "env \<Rightarrow> effects \<Rightarrow> ManagedPosition \<Rightarrow> effects \<times> bool" where
  "savePositionToDB E f position =
     (let f1 = emit (SaveRequested position) f in
      if SaveManagedPosition E position
        then (f1\<lparr>db := (db f1)(ID position \<mapsto> position)\<rparr>, True)
      else (f1, False))"

definition exitSideOf :: "ManagedPosition \<Rightarrow> string" where
  "exitSideOf position = (if Side position = ''sell'' then ''buy'' else ''sell'')"

text \<open>
  The order literal every placing function starts from (the other fields are zero). The
  order each function builds is a definition of its own, named after the function.
\<close>

definition newOrder :: "env \<Rightarrow> string \<Rightarrow> real \<Rightarrow> string \<Rightarrow> string \<Rightarrow> string \<Rightarrow> Order" where
  "newOrder E symbol qty side type tif =
     \<lparr>OrderIdent = [], OrderSymbol = symbol, Qty = qty, OrderSide = side, Type = type,
      TimeInForce = tif, LimitPrice = None, StopPrice = None, OrderStatus = ''pending'',
      FilledQty = 0, FilledAvgPrice = None, SubmittedAt = now E, FilledAt = None,
      CanceledAt = None\<rparr>"

section \<open>Placing orders\<close>

text \<open>
  Each placing function returns the effects, the position (mutated in place in the
  source) and whether the error returned was \<^verbatim>\<open>nil\<close>.
\<close>

definition entryOrder :: "env \<Rightarrow> ManagedPosition \<Rightarrow> Order" where
  "entryOrder E position =
     (let orderType = (if EntryOrderType position = ''limit'' then ''limit'' else ''market'');
          order = newOrder E (Symbol position) (Quantity position) (Side position)
                    orderType ''gtc''
      in if orderType = ''limit''
         then order\<lparr>LimitPrice := Some (EntryPrice position)\<rparr> else order)"

definition placeEntryOrder ::
  "env \<Rightarrow> effects \<Rightarrow> ManagedPosition \<Rightarrow> effects \<times> ManagedPosition \<times> bool" where
  "placeEntryOrder E f position =
     (let order = entryOrder E position;
          f1 = emit (OrderSubmitted order) f
      in case PlaceOrder E order of
           None \<Rightarrow> (f1, position, False)
         | Some result \<Rightarrow>
             (f1, position\<lparr>EntryOrderID := OrderID result, Status := ''PENDING''\<rparr>, True))"

definition stopLossOrder :: "env \<Rightarrow> ManagedPosition \<Rightarrow> Order" where
  "stopLossOrder E position =
     (newOrder E (Symbol position) (RemainingQty position) (exitSideOf position)
        ''stop'' ''gtc'')\<lparr>StopPrice := Some (StopLossPrice position)\<rparr>"

definition placeStopLossOrder ::
  "env \<Rightarrow> effects \<Rightarrow> ManagedPosition \<Rightarrow> effects \<times> ManagedPosition \<times> bool" where
  "placeStopLossOrder E f position =
     (let order = stopLossOrder E position;
          f1 = emit (OrderSubmitted order) f
      in case PlaceOrder E order of
           None \<Rightarrow> (f1, position, False)
         | Some result \<Rightarrow> (f1, position\<lparr>StopLossOrderID := OrderID result\<rparr>, True))"

definition takeProfitOrder :: "env \<Rightarrow> ManagedPosition \<Rightarrow> Order" where
  "takeProfitOrder E position =
     (newOrder E (Symbol position) (RemainingQty position) (exitSideOf position)
        ''limit'' ''gtc'')\<lparr>LimitPrice := Some (TakeProfitPrice position)\<rparr>"

definition placeTakeProfitOrder ::
  "env \<Rightarrow> effects \<Rightarrow> ManagedPosition \<Rightarrow> effects \<times> ManagedPosition \<times> bool" where
  "placeTakeProfitOrder E f position =
     (let order = takeProfitOrder E position;
          f1 = emit (OrderSubmitted order) f
      in case PlaceOrder E order of
           None \<Rightarrow> (f1, position, False)
         | Some result \<Rightarrow> (f1, position\<lparr>TakeProfitOrderID := OrderID result\<rparr>, True))"

text \<open>
  \<^verbatim>\<open>placePartialExitOrder\<close> reads \<^verbatim>\<open>position.PartialExit.Percent\<close> without a nil check
  (its only caller checks): a nil configuration is the panic.
\<close>

definition partialExitOrder :: "env \<Rightarrow> ManagedPosition \<Rightarrow> PartialExitConfig \<Rightarrow> Order" where
  "partialExitOrder E position cfg =
     (newOrder E (Symbol position) (Quantity position * (Percent cfg / 100))
        (exitSideOf position) ''limit'' ''gtc'')\<lparr>LimitPrice := Some (TargetPrice cfg)\<rparr>"

definition placePartialExitOrder ::
  "env \<Rightarrow> effects \<Rightarrow> ManagedPosition \<Rightarrow> failure + effects \<times> ManagedPosition \<times> bool" where
  "placePartialExitOrder E f position =
     (case PartialExit position of
        None \<Rightarrow> Inl NilPointerDereference
      | Some cfg \<Rightarrow>
          (let order = partialExitOrder E position cfg;
               f1 = emit (OrderSubmitted order) f
           in (case PlaceOrder E order of
                 None \<Rightarrow> Inr (f1, position, False)
               | Some result \<Rightarrow>
                   Inr (f1, position\<lparr>PartialExitOrders :=
                              PartialExitOrders position @ [OrderID result]\<rparr>, True))))"

definition placeRiskOrders ::
  "env \<Rightarrow> effects \<Rightarrow> ManagedPosition \<Rightarrow> failure + effects \<times> ManagedPosition" where
  "placeRiskOrders E f position =
     (let (f1, p1, ok1) = placeStopLossOrder E f position;
          (f2, p2, ok2) = placeTakeProfitOrder E f1 p1
      in case PartialExit p2 of
           None \<Rightarrow> Inr (f2, p2)
         | Some cfg \<Rightarrow>
             if Enabled cfg
             then (case placePartialExitOrder E f2 p2 of
                     Inl e \<Rightarrow> Inl e
                   | Inr (f3, p3, ok3) \<Rightarrow> Inr (f3, p3))
             else Inr (f2, p2))"

section \<open>The supervisor pass\<close>

text \<open>
  \<^verbatim>\<open>checkEntryOrder\<close>: the status is set to ACTIVE, then \<^verbatim>\<open>*order.FilledAvgPrice\<close> is
  read. The source has no \<^verbatim>\<open>recover\<close>, so a nil pointer there ends the process: the
  result is the failure alone.
\<close>

definition checkEntryOrder ::
  "env \<Rightarrow> effects \<Rightarrow> ManagedPosition \<Rightarrow> failure + effects \<times> ManagedPosition" where
  "checkEntryOrder E f position =
     (let f1 = emit (OrderPolled (EntryOrderID position)) f in
      case GetOrder E (EntryOrderID position) of
        None \<Rightarrow> Inr (f1, position)
      | Some order \<Rightarrow>
          if OrderStatus order = ''filled'' then
            (case FilledAvgPrice order of
               None \<Rightarrow> Inl NilPointerDereference
             | Some fillPrice \<Rightarrow>
                 (case placeRiskOrders E f1
                         (position\<lparr>Status := ''ACTIVE'', EntryPrice := fillPrice,
                                   UpdatedAt := now E\<rparr>) of
                    Inl e \<Rightarrow> Inl e
                  | Inr (f2, p2) \<Rightarrow> Inr (fst (savePositionToDB E f2 p2), p2)))
          else Inr (f1, position))"

text \<open>The loop of \<^verbatim>\<open>manageRiskOrders\<close> over the partial-exit order ids.\<close>

fun pollPartialExits ::
  "env \<Rightarrow> string list \<Rightarrow> effects \<Rightarrow> ManagedPosition \<Rightarrow> effects \<times> ManagedPosition" where
  "pollPartialExits E [] f position = (f, position)"
| "pollPartialExits E (orderID # rest) f position =
     (let f1 = emit (OrderPolled orderID) f in
      case GetOrder E orderID of
        None \<Rightarrow> pollPartialExits E rest f1 position
      | Some order \<Rightarrow>
          if OrderStatus order = ''filled'' then
            (let p1 = position\<lparr>Status := ''PARTIAL'',
                               RemainingQty := RemainingQty position - FilledQty order\<rparr>
             in pollPartialExits E rest (fst (savePositionToDB E f1 p1)) p1)
          else pollPartialExits E rest f1 position)"

text \<open>Whether polling an order id finds it filled (\<^verbatim>\<open>err == nil && order.Status == "filled"\<close>).\<close>

definition observedFilled :: "env \<Rightarrow> string \<Rightarrow> bool" where
  "observedFilled E orderID =
     (case GetOrder E orderID of None \<Rightarrow> False | Some order \<Rightarrow> OrderStatus order = ''filled'')"

definition manageRiskOrders ::
  "env \<Rightarrow> effects \<Rightarrow> ManagedPosition \<Rightarrow> effects \<times> ManagedPosition" where
  "manageRiskOrders E f position =
     (let f1 = (if StopLossOrderID position \<noteq> []
                then emit (OrderPolled (StopLossOrderID position)) f else f)
      in if StopLossOrderID position \<noteq> [] \<and> observedFilled E (StopLossOrderID position)
         then (let p1 = position\<lparr>Status := ''STOPPED_OUT'', ClosedAt := Some (now E)\<rparr>
               in (fst (savePositionToDB E f1 p1), p1))
         else
           (let f2 = (if TakeProfitOrderID position \<noteq> []
                      then emit (OrderPolled (TakeProfitOrderID position)) f1 else f1)
            in if TakeProfitOrderID position \<noteq> []
                  \<and> observedFilled E (TakeProfitOrderID position)
               then (let p1 = position\<lparr>Status := ''CLOSED'', ClosedAt := Some (now E)\<rparr>
                     in (fst (savePositionToDB E f2 p1), p1))
               else pollPartialExits E (PartialExitOrders position) f2 position))"

definition updateTrailingStop ::
  "env \<Rightarrow> effects \<Rightarrow> ManagedPosition \<Rightarrow> effects \<times> ManagedPosition" where
  "updateTrailingStop E f position =
     (if Side position = ''buy'' then
        (let newStopPrice = CurrentPrice position * (1 - TrailingPercent position / 100)
         in if newStopPrice > StopLossPrice position then
              (let f1 = (if StopLossOrderID position \<noteq> []
                         then emit (CancelRequested (StopLossOrderID position)) f else f);
                   (f2, p2, ok) =
                      placeStopLossOrder E f1 (position\<lparr>StopLossPrice := newStopPrice\<rparr>)
               in (f2, p2))
            else (f, position))
      else
        (let newStopPrice = CurrentPrice position * (1 + TrailingPercent position / 100)
         in if newStopPrice < StopLossPrice position then
              (let f1 = (if StopLossOrderID position \<noteq> []
                         then emit (CancelRequested (StopLossOrderID position)) f else f);
                   (f2, p2, ok) =
                      placeStopLossOrder E f1 (position\<lparr>StopLossPrice := newStopPrice\<rparr>)
               in (f2, p2))
            else (f, position)))"

definition updatePositionPrice ::
  "env \<Rightarrow> effects \<Rightarrow> ManagedPosition \<Rightarrow> effects \<times> ManagedPosition \<times> bool" where
  "updatePositionPrice E f position =
     (case getCurrentPrice E f (Symbol position) of
        (f1, None) \<Rightarrow> (f1, position, False)
      | (f1, Some currentPrice) \<Rightarrow>
          (f1,
           position\<lparr>CurrentPrice := currentPrice,
             UnrealizedPL :=
               (if Side position = ''buy''
                then (currentPrice - EntryPrice position) * RemainingQty position
                else (EntryPrice position - currentPrice) * RemainingQty position),
             UnrealizedPLPC :=
               (if Side position = ''buy''
                then ((currentPrice - EntryPrice position) / EntryPrice position) * 100
                else ((EntryPrice position - currentPrice) / EntryPrice position) * 100),
             UpdatedAt := now E\<rparr>,
           True))"

text \<open>The body of the loop of \<^verbatim>\<open>checkPositions\<close>, for one position.\<close>

definition checkPosition ::
  "env \<Rightarrow> effects \<Rightarrow> ManagedPosition \<Rightarrow> failure + effects \<times> ManagedPosition" where
  "checkPosition E f position =
     (if Status position = ''CLOSED'' \<or> Status position = ''STOPPED_OUT''
        then Inr (f, position)
      else if Status position = ''PENDING'' then checkEntryOrder E f position
      else
        (case updatePositionPrice E f position of
           (f1, p1, False) \<Rightarrow> Inr (f1, p1)
         | (f1, p1, True) \<Rightarrow>
             (let (f2, p2) = (if Status p1 = ''ACTIVE''
                              then manageRiskOrders E f1 p1 else (f1, p1))
              in if TrailingStop p2 then Inr (updateTrailingStop E f2 p2)
                 else Inr (f2, p2))))"

fun checkAll ::
  "env \<Rightarrow> (string \<times> ManagedPosition) list \<Rightarrow> effects
     \<Rightarrow> failure + (string \<times> ManagedPosition) list \<times> effects" where
  "checkAll E [] f = Inr ([], f)"
| "checkAll E ((k, position) # rest) f =
     (case checkPosition E f position of
        Inl e \<Rightarrow> Inl e
      | Inr (f1, p1) \<Rightarrow>
          (case checkAll E rest f1 of
             Inl e \<Rightarrow> Inl e
           | Inr (rest1, f2) \<Rightarrow> Inr ((k, p1) # rest1, f2)))"

definition checkPositions :: "env \<Rightarrow> manager \<Rightarrow> failure + manager" where
  "checkPositions E m =
     (case checkAll E (positions m) (fx m) of
        Inl e \<Rightarrow> Inl e
      | Inr (ps, f) \<Rightarrow> Inr (m\<lparr>positions := ps, fx := f\<rparr>))"

text \<open>Successive passes of \<^verbatim>\<open>MonitorPositions\<close>, one environment per tick.\<close>

fun runPasses :: "env list \<Rightarrow> manager \<Rightarrow> failure + manager" where
  "runPasses [] m = Inr m"
| "runPasses (E # Es) m =
     (case checkPositions E m of Inl e \<Rightarrow> Inl e | Inr m1 \<Rightarrow> runPasses Es m1)"

section \<open>The gateway operations\<close>

text \<open>\<^verbatim>\<open>24*time.Hour\<close>, in nanoseconds.\<close>

definition staleAfter :: int where
  "staleAfter = 24 * 3600 * 1000000000"

text \<open>
  \<^verbatim>\<open>ListManagedPositions\<close>: a PENDING record older than 24 hours is skipped
  (\<^verbatim>\<open>continue\<close>) before the status filter is looked at.
\<close>

definition listed :: "int \<Rightarrow> string \<Rightarrow> ManagedPosition \<Rightarrow> bool" where
  "listed t status pos =
     (if Status pos = ''PENDING'' \<and> t - CreatedAt pos > staleAfter then False
      else status = [] \<or> Status pos = status)"

definition ListManagedPositions :: "int \<Rightarrow> manager \<Rightarrow> string \<Rightarrow> ManagedPosition list" where
  "ListManagedPositions t m status = filter (listed t status) (map snd (positions m))"

definition cancelAll :: "string list \<Rightarrow> effects \<Rightarrow> effects" where
  "cancelAll orderIDs f = foldl (\<lambda>g orderID. emit (CancelRequested orderID) g) f orderIDs"

text \<open>
  \<^verbatim>\<open>CloseManagedPosition\<close>: the results of the cancellations and of the exit order are
  only logged; the status is set to CLOSED on every path that found the position.
\<close>

definition exitOrder :: "env \<Rightarrow> ManagedPosition \<Rightarrow> Order" where
  "exitOrder E position =
     newOrder E (Symbol position) (RemainingQty position) (exitSideOf position)
       ''market'' ''day''"

definition CloseManagedPosition :: "env \<Rightarrow> manager \<Rightarrow> string \<Rightarrow> failure + manager" where
  "CloseManagedPosition E m positionID =
     (case map_of (positions m) positionID of
        None \<Rightarrow> Inl (PositionNotFound positionID)
      | Some position \<Rightarrow>
          (let f1 = (if EntryOrderID position \<noteq> []
                     then emit (CancelRequested (EntryOrderID position)) (fx m) else fx m);
               f2 = (if StopLossOrderID position \<noteq> []
                     then emit (CancelRequested (StopLossOrderID position)) f1 else f1);
               f3 = (if TakeProfitOrderID position \<noteq> []
                     then emit (CancelRequested (TakeProfitOrderID position)) f2 else f2);
               f4 = cancelAll (PartialExitOrders position) f3;
               f5 = (if (Status position = ''ACTIVE'' \<or> Status position = ''PARTIAL'')
                        \<and> RemainingQty position > 0
                     then emit (OrderSubmitted (exitOrder E position)) f4
                     else f4);
               p1 = position\<lparr>Status := ''CLOSED'', ClosedAt := Some (now E)\<rparr>
           in Inr (m\<lparr>positions := AList.update positionID p1 (positions m),
                      fx := fst (savePositionToDB E f5 p1)\<rparr>)))"

text \<open>
  \<^verbatim>\<open>PlaceManagedPosition\<close>. The request's partial-exit configuration is a pointer the
  position shares: the target price written into it is the position's.
\<close>

definition plannedPartialExit ::
  "PlaceManagedPositionRequest \<Rightarrow> real \<Rightarrow> PartialExitConfig option" where
  "plannedPartialExit req entryPrice =
     (case reqPartialExit req of
        None \<Rightarrow> None
      | Some cfg \<Rightarrow>
          if Enabled cfg
          then Some (cfg\<lparr>TargetPrice :=
                       calculatePartialExitPrice entryPrice (TargetPercent cfg) (reqSide req)\<rparr>)
          else Some cfg)"

definition plannedPosition ::
  "env \<Rightarrow> PlaceManagedPositionRequest \<Rightarrow> real \<Rightarrow> real \<Rightarrow> real \<Rightarrow> real \<Rightarrow> ManagedPosition"
  where
  "plannedPosition E req currentPrice entryPrice stopLossPrice takeProfitPrice =
     \<lparr>ID = generatePositionID (now E),
      Symbol = reqSymbol req,
      Side = reqSide req,
      Strategy = reqStrategy req,
      Quantity = calculateQuantity E (reqAllocationDollars req) entryPrice,
      EntryPrice = entryPrice,
      EntryOrderID = [],
      EntryOrderType = reqEntryStrategy req,
      AllocationDollars = reqAllocationDollars req,
      StopLossPrice = stopLossPrice,
      StopLossPercent = \<bar>(stopLossPrice - entryPrice) / entryPrice * 100\<bar>,
      StopLossOrderID = [],
      TrailingStop = reqTrailingStop req,
      TrailingPercent = reqTrailingPercent req,
      TakeProfitPrice = takeProfitPrice,
      TakeProfitPercent = \<bar>(takeProfitPrice - entryPrice) / entryPrice * 100\<bar>,
      TakeProfitOrderID = [],
      PartialExit = plannedPartialExit req entryPrice,
      PartialExitOrders = [],
      Status = ''PENDING'',
      CurrentPrice = currentPrice,
      UnrealizedPL = 0,
      UnrealizedPLPC = 0,
      RemainingQty = calculateQuantity E (reqAllocationDollars req) entryPrice,
      CreatedAt = now E,
      UpdatedAt = now E,
      ClosedAt = None,
      Notes = reqNotes req,
      Tags = reqTags req\<rparr>"

definition PlaceManagedPosition ::
  "env \<Rightarrow> manager \<Rightarrow> PlaceManagedPositionRequest \<Rightarrow> manager \<times> (failure + ManagedPosition)"
  where
  "PlaceManagedPosition E m req =
     (case validateRequest req of
        Some e \<Rightarrow> (m, Inl (InvalidRequest e))
      | None \<Rightarrow>
          (case getCurrentPrice E (fx m) (reqSymbol req) of
             (f1, None) \<Rightarrow> (m\<lparr>fx := f1\<rparr>, Inl PriceUnavailable)
           | (f1, Some currentPrice) \<Rightarrow>
               (let entryPrice =
                      (case reqEntryPrice req of None \<Rightarrow> currentPrice | Some ep \<Rightarrow> ep)
                in case calculateStopLoss entryPrice (reqStopLossPrice req)
                          (reqStopLossPercent req) (reqSide req) of
                     Inl e \<Rightarrow> (m\<lparr>fx := f1\<rparr>, Inl e)
                   | Inr stopLossPrice \<Rightarrow>
                       (case calculateTakeProfit entryPrice (reqTakeProfitPrice req)
                               (reqTakeProfitPercent req) (reqSide req) of
                          Inl e \<Rightarrow> (m\<lparr>fx := f1\<rparr>, Inl e)
                        | Inr takeProfitPrice \<Rightarrow>
                            (case placeEntryOrder E f1
                                    (plannedPosition E req currentPrice entryPrice
                                       stopLossPrice takeProfitPrice) of
                               (f2, p2, False) \<Rightarrow> (m\<lparr>fx := f2\<rparr>, Inl EntryOrderFailed)
                             | (f2, p2, True) \<Rightarrow>
                                 (m\<lparr>positions := AList.update (ID p2) p2 (positions m),
                                    fx := fst (savePositionToDB E f2 p2)\<rparr>,
                                  Inr p2))))))"

section \<open>Notions used in the statements\<close>

text \<open>The quantity a poll of an order id reports filled (zero unless the order is filled).\<close>

definition filledQty :: "env \<Rightarrow> string \<Rightarrow> real" where
  "filledQty E orderID =
     (case GetOrder E orderID of
        None \<Rightarrow> 0
      | Some order \<Rightarrow> if OrderStatus order = ''filled'' then FilledQty order else 0)"

text \<open>The events that change the broker's book: a submission or a cancellation request.\<close>

fun brokerWrite :: "event \<Rightarrow> bool" where
  "brokerWrite (OrderSubmitted order) = True"
| "brokerWrite (CancelRequested orderID) = True"
| "brokerWrite e = False"

text \<open>The three statuses the specification calls terminal.\<close>

definition terminal :: "ManagedPosition \<Rightarrow> bool" where
  "terminal p = (Status p = ''CLOSED'' \<or> Status p = ''STOPPED_OUT'' \<or> Status p = ''FAILED'')"

section \<open>Scenarios\<close>

text \<open>
  Stub collaborators for concrete runs: a broker that knows the listed orders and accepts
  (or refuses) every submission, a quote with one price, a store that saves (or fails).
  The clock reads 7. The machine's quotient is given at the two points the scenarios
  divide at, where it is exact: 1000 / 100 = 10 and 50 / 100 = 0.5.
\<close>

definition emptyEffects :: effects where
  "emptyEffects = \<lparr>db = Map.empty, events = []\<rparr>"

definition emptyManager :: manager where
  "emptyManager = \<lparr>positions = [], fx = emptyEffects\<rparr>"

definition stubOrder :: "string \<Rightarrow> real \<Rightarrow> string \<Rightarrow> real \<Rightarrow> real option \<Rightarrow> Order" where
  "stubOrder oid qty st filled avg =
     \<lparr>OrderIdent = oid, OrderSymbol = ''SPY'', Qty = qty, OrderSide = ''sell'', Type = ''limit'',
      TimeInForce = ''gtc'', LimitPrice = None, StopPrice = None, OrderStatus = st,
      FilledQty = filled, FilledAvgPrice = avg, SubmittedAt = 0, FilledAt = None,
      CanceledAt = None\<rparr>"

definition stubEnv :: "(string \<times> Order) list \<Rightarrow> real \<Rightarrow> bool \<Rightarrow> bool \<Rightarrow> env" where
  "stubEnv orders ask accepts saves =
     \<lparr>PlaceOrder = (\<lambda>order. if accepts
         then Some \<lparr>OrderID = Type order @ ''-1'', ResultStatus = ''accepted'', Message = []\<rparr>
         else None),
      CancelOrder = (\<lambda>orderID. True),
      GetOrder = map_of orders,
      GetLatestQuote = (\<lambda>symbol. Some \<lparr>QuoteSymbol = symbol, BidPrice = ask, AskPrice = ask\<rparr>),
      SaveManagedPosition = (\<lambda>position. saves),
      quo64 = (\<lambda>a b. map_of [((1000, 100), 10), ((50, 100), 1 / 2)] (a, b)),
      now = 7\<rparr>"

definition acceptingEnv :: env where
  "acceptingEnv = stubEnv [] 100 True True"

definition refusingEnv :: env where
  "refusingEnv = stubEnv [] 100 False True"

definition failingStoreEnv :: env where
  "failingStoreEnv = stubEnv [] 100 True False"

definition quoteAt100 :: Quote where
  "quoteAt100 = \<lparr>QuoteSymbol = ''SPY'', BidPrice = 100, AskPrice = 100\<rparr>"

text \<open>
  Scenario S1 of the specification: long SPY, allocation 1000, market entry, stop 5 percent,
  take-profit 10 percent, quote 100. \<open>plannedS1\<close> is the record the planner returns for
  it (lemma \<open>s1_plan\<close> below): quantity 10, stop 95, take-profit 110.
\<close>

definition s1Request :: PlaceManagedPositionRequest where
  "s1Request =
     \<lparr>reqSymbol = ''SPY'', reqSide = ''buy'', reqStrategy = ''SWING_TRADE'',
      reqAllocationDollars = 1000, reqEntryStrategy = ''market'', reqEntryPrice = None,
      reqStopLossPrice = None, reqStopLossPercent = Some 5, reqTrailingStop = False,
      reqTrailingPercent = 0, reqTakeProfitPrice = None, reqTakeProfitPercent = Some 10,
      reqPartialExit = None, reqNotes = [], reqTags = []\<rparr>"

definition plannedS1 :: ManagedPosition where
  "plannedS1 =
     \<lparr>ID = ''pos_7'', Symbol = ''SPY'', Side = ''buy'', Strategy = ''SWING_TRADE'',
      Quantity = 10, EntryPrice = 100, EntryOrderID = ''market-1'', EntryOrderType = ''market'',
      AllocationDollars = 1000, StopLossPrice = 95, StopLossPercent = 5,
      StopLossOrderID = [], TrailingStop = False, TrailingPercent = 0,
      TakeProfitPrice = 110, TakeProfitPercent = 10, TakeProfitOrderID = [],
      PartialExit = None, PartialExitOrders = [], Status = ''PENDING'',
      CurrentPrice = 100, UnrealizedPL = 0, UnrealizedPLPC = 0, RemainingQty = 10,
      CreatedAt = 7, UpdatedAt = 7, ClosedAt = None, Notes = [], Tags = []\<rparr>"

definition smallRequest :: PlaceManagedPositionRequest where
  "smallRequest = s1Request\<lparr>reqAllocationDollars := 50\<rparr>"

definition zeroQuantityPosition :: ManagedPosition where
  "zeroQuantityPosition =
     plannedS1\<lparr>Quantity := 0, RemainingQty := 0, AllocationDollars := 50\<rparr>"

text \<open>
  The same position later in its life: active with both protective orders placed, with a
  partial-exit order (scenario S4), with a trailing stop (scenario S3), and stopped out.
\<close>

definition activePosition :: ManagedPosition where
  "activePosition =
     plannedS1\<lparr>Status := ''ACTIVE'', StopLossOrderID := ''stop-1'',
               TakeProfitOrderID := ''limit-1''\<rparr>"

definition partialExitPosition :: ManagedPosition where
  "partialExitPosition =
     activePosition\<lparr>PartialExit :=
         Some \<lparr>Enabled = True, Percent = 50, TargetPercent = 5, TargetPrice = 105\<rparr>,
       PartialExitOrders := [''p1'']\<rparr>"

definition trailingPosition :: ManagedPosition where
  "trailingPosition = activePosition\<lparr>TrailingStop := True, TrailingPercent := 5\<rparr>"

definition stoppedOutPosition :: ManagedPosition where
  "stoppedOutPosition = activePosition\<lparr>Status := ''STOPPED_OUT'', ClosedAt := Some 7\<rparr>"

definition afterFill :: ManagedPosition where
  "afterFill =
     plannedS1\<lparr>Status := ''ACTIVE'', EntryPrice := 110, StopLossOrderID := ''stop-1'',
       TakeProfitOrderID := ''limit-1''\<rparr>"

definition afterPartialFill :: ManagedPosition where
  "afterPartialFill =
     partialExitPosition\<lparr>Status := ''PARTIAL'', CurrentPrice := 102, UnrealizedPL := 20,
       UnrealizedPLPC := 2, RemainingQty := 5\<rparr>"

definition afterRace :: ManagedPosition where
  "afterRace = activePosition\<lparr>Status := ''STOPPED_OUT'', ClosedAt := Some 7\<rparr>"

definition stalePending :: ManagedPosition where
  "stalePending = plannedS1\<lparr>ID := ''pos_3'', CreatedAt := 3\<rparr>"

definition managing :: "ManagedPosition \<Rightarrow> manager" where
  "managing p = \<lparr>positions = [(ID p, p)], fx = emptyEffects\<rparr>"

definition twoPositions :: manager where
  "twoPositions =
     \<lparr>positions = [(''pos_7'', activePosition), (''pos_3'', stalePending)], fx = emptyEffects\<rparr>"

text \<open>
  Broker views: the entry order filled at 110, the partial-exit order filled for 5 shares
  while stop and take-profit (10 shares each) rest (once with a store that saves, once
  with a store that refuses), both protective orders filled between two polls, and three
  successive marks.
\<close>

definition filledAt110 :: env where
  "filledAt110 =
     stubEnv [(''market-1'', stubOrder ''market-1'' 10 ''filled'' 10 (Some 110))] 110 True True"

definition partialFillEnv :: env where
  "partialFillEnv =
     stubEnv [(''p1'', stubOrder ''p1'' 5 ''filled'' 5 (Some 105)),
              (''stop-1'', stubOrder ''stop-1'' 10 ''accepted'' 0 None),
              (''limit-1'', stubOrder ''limit-1'' 10 ''accepted'' 0 None)] 102 True True"

definition partialFillStoreDown :: env where
  "partialFillStoreDown =
     stubEnv [(''p1'', stubOrder ''p1'' 5 ''filled'' 5 (Some 105)),
              (''stop-1'', stubOrder ''stop-1'' 10 ''accepted'' 0 None),
              (''limit-1'', stubOrder ''limit-1'' 10 ''accepted'' 0 None)] 102 True False"

definition raceEnv :: env where
  "raceEnv =
     stubEnv [(''stop-1'', stubOrder ''stop-1'' 10 ''filled'' 10 (Some 95)),
              (''limit-1'', stubOrder ''limit-1'' 10 ''filled'' 10 (Some 110))] 100 True True"

definition marks :: "env list" where
  "marks = [stubEnv [] 102 True True, stubEnv [] 110 True True, stubEnv [] 108 True True]"

section \<open>Properties\<close>

lemmas model_defs =
  PlaceManagedPosition_def validateRequest_def getCurrentPrice_def emit_def
  calculateStopLoss_def calculateTakeProfit_def calculatePartialExitPrice_def
  calculateQuantity_def generatePositionID_def savePositionToDB_def exitSideOf_def
  newOrder_def entryOrder_def placeEntryOrder_def stopLossOrder_def placeStopLossOrder_def
  takeProfitOrder_def placeTakeProfitOrder_def partialExitOrder_def placePartialExitOrder_def
  placeRiskOrders_def checkEntryOrder_def observedFilled_def manageRiskOrders_def
  updateTrailingStop_def updatePositionPrice_def checkPosition_def checkPositions_def
  plannedPartialExit_def plannedPosition_def exitOrder_def CloseManagedPosition_def
  cancelAll_def ListManagedPositions_def listed_def staleAfter_def

lemmas scenario_defs =
  emptyEffects_def emptyManager_def stubOrder_def stubEnv_def acceptingEnv_def refusingEnv_def
  failingStoreEnv_def quoteAt100_def s1Request_def plannedS1_def smallRequest_def
  zeroQuantityPosition_def activePosition_def partialExitPosition_def trailingPosition_def
  stoppedOutPosition_def afterFill_def afterPartialFill_def afterRace_def stalePending_def
  managing_def twoPositions_def filledAt110_def partialFillEnv_def partialFillStoreDown_def
  raceEnv_def marks_def

subsection \<open>Effects and frames of the single steps\<close>

lemma events_emit [simp]: "events (emit e f) = events f @ [e]"
  by (simp add: emit_def)

lemma db_emit [simp]: "db (emit e f) = db f"
  by (simp add: emit_def)

lemma savePositionToDB_events [simp]:
  "events (fst (savePositionToDB E f p)) = events f @ [SaveRequested p]"
  by (simp add: savePositionToDB_def emit_def Let_def)

lemma savePositionToDB_db:
  "db (fst (savePositionToDB E f p)) =
     (if SaveManagedPosition E p then (db f)(ID p \<mapsto> p) else db f)"
  by (simp add: savePositionToDB_def emit_def Let_def)

lemma updatePositionPrice_ok:
  "GetLatestQuote E (Symbol p) = Some q \<Longrightarrow>
   \<exists>p1. updatePositionPrice E f p = (emit (QuoteRequested (Symbol p)) f, p1, True)
     \<and> Status p1 = Status p \<and> Side p1 = Side p \<and> StopLossPrice p1 = StopLossPrice p
     \<and> StopLossOrderID p1 = StopLossOrderID p \<and> TakeProfitOrderID p1 = TakeProfitOrderID p
     \<and> PartialExitOrders p1 = PartialExitOrders p \<and> RemainingQty p1 = RemainingQty p
     \<and> TrailingStop p1 = TrailingStop p"
  by (simp add: updatePositionPrice_def getCurrentPrice_def Let_def)

lemma updatePositionPrice_frame:
  "updatePositionPrice E f p = (f1, p1, ok) \<Longrightarrow>
     Status p1 = Status p \<and> Side p1 = Side p \<and> StopLossPrice p1 = StopLossPrice p
     \<and> RemainingQty p1 = RemainingQty p \<and> TrailingStop p1 = TrailingStop p
     \<and> events f1 = events f @ [QuoteRequested (Symbol p)]"
  by (cases "GetLatestQuote E (Symbol p)")
     (auto simp: updatePositionPrice_def getCurrentPrice_def Let_def)

lemma placeStopLossOrder_frame:
  "placeStopLossOrder E f p = (f', p', ok) \<Longrightarrow>
     Status p' = Status p \<and> Side p' = Side p \<and> StopLossPrice p' = StopLossPrice p
     \<and> RemainingQty p' = RemainingQty p
     \<and> events f' = events f @ [OrderSubmitted (stopLossOrder E p)]"
  by (cases "PlaceOrder E (stopLossOrder E p)")
     (auto simp: placeStopLossOrder_def Let_def)

lemma placeStopLossOrder_keeps:
  "placeStopLossOrder E f p = (f', p', ok) \<Longrightarrow>
     takeProfitOrder E p' = takeProfitOrder E p
     \<and> (\<forall>cfg. partialExitOrder E p' cfg = partialExitOrder E p cfg)
     \<and> PartialExit p' = PartialExit p \<and> TakeProfitPrice p' = TakeProfitPrice p
     \<and> EntryPrice p' = EntryPrice p"
  by (cases "PlaceOrder E (stopLossOrder E p)")
     (auto simp: placeStopLossOrder_def takeProfitOrder_def partialExitOrder_def
        exitSideOf_def Let_def)

lemma placeTakeProfitOrder_frame:
  "placeTakeProfitOrder E f p = (f', p', ok) \<Longrightarrow>
     Status p' = Status p \<and> Side p' = Side p \<and> StopLossPrice p' = StopLossPrice p"
  by (cases "PlaceOrder E (takeProfitOrder E p)")
     (auto simp: placeTakeProfitOrder_def Let_def)

lemma placeTakeProfitOrder_keeps:
  "placeTakeProfitOrder E f p = (f', p', ok) \<Longrightarrow>
     (\<forall>cfg. partialExitOrder E p' cfg = partialExitOrder E p cfg)
     \<and> PartialExit p' = PartialExit p \<and> TakeProfitPrice p' = TakeProfitPrice p
     \<and> EntryPrice p' = EntryPrice p
     \<and> events f' = events f @ [OrderSubmitted (takeProfitOrder E p)]"
  by (cases "PlaceOrder E (takeProfitOrder E p)")
     (auto simp: placeTakeProfitOrder_def partialExitOrder_def exitSideOf_def Let_def)

lemma placePartialExitOrder_frame:
  "placePartialExitOrder E f p = Inr (f', p', ok) \<Longrightarrow>
     Status p' = Status p \<and> Side p' = Side p \<and> StopLossPrice p' = StopLossPrice p"
  by (auto simp: placePartialExitOrder_def Let_def split: option.splits)

lemma placePartialExitOrder_keeps:
  "PartialExit p = Some cfg \<Longrightarrow>
   \<exists>f' p' ok. placePartialExitOrder E f p = Inr (f', p', ok)
     \<and> PartialExit p' = PartialExit p \<and> TakeProfitPrice p' = TakeProfitPrice p
     \<and> EntryPrice p' = EntryPrice p \<and> Status p' = Status p
     \<and> StopLossPrice p' = StopLossPrice p
     \<and> events f' = events f @ [OrderSubmitted (partialExitOrder E p cfg)]"
  by (cases "PlaceOrder E (partialExitOrder E p cfg)")
     (auto simp: placePartialExitOrder_def Let_def)

lemma placeRiskOrders_not_Inl [simp]: "placeRiskOrders E f p \<noteq> Inl e"
  by (auto simp: placeRiskOrders_def placePartialExitOrder_def Let_def
        split: prod.splits option.splits sum.splits)

lemma placeRiskOrders_frame:
  assumes "placeRiskOrders E f p = Inr (f', p')"
  shows "Side p' = Side p \<and> StopLossPrice p' = StopLossPrice p"
proof -
  obtain f1 p1 ok1 where a: "placeStopLossOrder E f p = (f1, p1, ok1)"
    by (cases "placeStopLossOrder E f p") auto
  obtain f2 p2 ok2 where b: "placeTakeProfitOrder E f1 p1 = (f2, p2, ok2)"
    by (cases "placeTakeProfitOrder E f1 p1") auto
  note fa = placeStopLossOrder_frame[OF a] and fb = placeTakeProfitOrder_frame[OF b]
  from assms a b fa fb show ?thesis
    by (auto simp: placeRiskOrders_def split: option.splits if_splits sum.splits
          dest!: placePartialExitOrder_frame)
qed

lemma placeRiskOrders_result:
  "\<exists>f' p'. placeRiskOrders E f p = Inr (f', p')
     \<and> Status p' = Status p \<and> EntryPrice p' = EntryPrice p
     \<and> StopLossPrice p' = StopLossPrice p \<and> TakeProfitPrice p' = TakeProfitPrice p
     \<and> PartialExit p' = PartialExit p
     \<and> events f' = events f
          @ [OrderSubmitted (stopLossOrder E p), OrderSubmitted (takeProfitOrder E p)]
          @ (case PartialExit p of
               None \<Rightarrow> []
             | Some cfg \<Rightarrow>
                 if Enabled cfg then [OrderSubmitted (partialExitOrder E p cfg)] else [])"
proof -
  obtain f1 p1 ok1 where a: "placeStopLossOrder E f p = (f1, p1, ok1)"
    by (cases "placeStopLossOrder E f p") auto
  obtain f2 p2 ok2 where b: "placeTakeProfitOrder E f1 p1 = (f2, p2, ok2)"
    by (cases "placeTakeProfitOrder E f1 p1") auto
  note fa = placeStopLossOrder_frame[OF a] placeStopLossOrder_keeps[OF a]
    and fb = placeTakeProfitOrder_frame[OF b] placeTakeProfitOrder_keeps[OF b]
  show ?thesis
  proof (cases "PartialExit p")
    case None
    with a b fa fb show ?thesis by (simp add: placeRiskOrders_def)
  next
    case (Some cfg)
    with fa fb have pe: "PartialExit p2 = Some cfg" by simp
    show ?thesis
    proof (cases "Enabled cfg")
      case False
      with Some pe a b fa fb show ?thesis by (simp add: placeRiskOrders_def)
    next
      case True
      from placePartialExitOrder_keeps[OF pe, of E f2] obtain f3 p3 ok3 where
        c: "placePartialExitOrder E f2 p2 = Inr (f3, p3, ok3)"
          "PartialExit p3 = PartialExit p2" "TakeProfitPrice p3 = TakeProfitPrice p2"
          "EntryPrice p3 = EntryPrice p2" "Status p3 = Status p2"
          "StopLossPrice p3 = StopLossPrice p2"
          "events f3 = events f2 @ [OrderSubmitted (partialExitOrder E p2 cfg)]"
        by blast
      with True Some pe a b fa fb show ?thesis by (simp add: placeRiskOrders_def)
    qed
  qed
qed

lemma updatePositionPrice_store:
  "updatePositionPrice E f p = (f1, p1, ok) \<Longrightarrow> db f1 = db f \<and> ID p1 = ID p"
  by (cases "GetLatestQuote E (Symbol p)")
     (auto simp: updatePositionPrice_def getCurrentPrice_def Let_def)

lemma placeStopLossOrder_store:
  "placeStopLossOrder E f p = (f', p', ok) \<Longrightarrow> db f' = db f \<and> ID p' = ID p"
  by (cases "PlaceOrder E (stopLossOrder E p)")
     (auto simp: placeStopLossOrder_def Let_def)

lemma placeTakeProfitOrder_store:
  "placeTakeProfitOrder E f p = (f', p', ok) \<Longrightarrow> db f' = db f \<and> ID p' = ID p"
  by (cases "PlaceOrder E (takeProfitOrder E p)")
     (auto simp: placeTakeProfitOrder_def Let_def)

lemma placePartialExitOrder_store:
  "placePartialExitOrder E f p = Inr (f', p', ok) \<Longrightarrow> db f' = db f \<and> ID p' = ID p"
  by (auto simp: placePartialExitOrder_def Let_def split: option.splits)

lemma placeRiskOrders_store:
  assumes "placeRiskOrders E f p = Inr (f', p')"
  shows "db f' = db f \<and> ID p' = ID p"
proof -
  obtain f1 p1 ok1 where a: "placeStopLossOrder E f p = (f1, p1, ok1)"
    by (cases "placeStopLossOrder E f p") auto
  obtain f2 p2 ok2 where b: "placeTakeProfitOrder E f1 p1 = (f2, p2, ok2)"
    by (cases "placeTakeProfitOrder E f1 p1") auto
  note fa = placeStopLossOrder_store[OF a] and fb = placeTakeProfitOrder_store[OF b]
  from assms a b fa fb show ?thesis
    by (auto simp: placeRiskOrders_def split: option.splits if_splits sum.splits
          dest!: placePartialExitOrder_store)
qed

lemma checkEntryOrder_frame:
  "checkEntryOrder E f p = Inr (f', p') \<Longrightarrow>
     Side p' = Side p \<and> StopLossPrice p' = StopLossPrice p"
  by (auto simp: checkEntryOrder_def Let_def split: option.splits if_splits sum.splits
        dest!: placeRiskOrders_frame)

lemma filledQty_not_filled: "\<not> observedFilled E oid \<Longrightarrow> filledQty E oid = 0"
  by (auto simp: filledQty_def observedFilled_def split: option.splits)

lemma filledQty_none_filled:
  "\<forall>oid \<in> set oids. \<not> observedFilled E oid \<Longrightarrow> sum_list (map (filledQty E) oids) = 0"
  by (induction oids) (simp_all add: filledQty_not_filled)

lemma pollPartialExits_result:
  "pollPartialExits E oids f p = (f', p') \<Longrightarrow>
     p' = (if \<exists>oid \<in> set oids. observedFilled E oid
           then p\<lparr>Status := ''PARTIAL'',
                  RemainingQty := RemainingQty p - sum_list (map (filledQty E) oids)\<rparr>
           else p)
     \<and> filter brokerWrite (events f') = filter brokerWrite (events f)
     \<and> set (events f) \<subseteq> set (events f')
     \<and> ((\<exists>oid \<in> set oids. observedFilled E oid) \<longrightarrow> SaveRequested p' \<in> set (events f'))"
proof (induction oids arbitrary: f p)
  case Nil
  then show ?case by simp
next
  case (Cons oid rest)
  show ?case
  proof (cases "observedFilled E oid")
    case True
    then obtain order where o: "GetOrder E oid = Some order" "OrderStatus order = ''filled''"
      by (auto simp: observedFilled_def split: option.splits)
    let ?p1 = "p\<lparr>Status := ''PARTIAL'', RemainingQty := RemainingQty p - FilledQty order\<rparr>"
    let ?f1 = "fst (savePositionToDB E (emit (OrderPolled oid) f) ?p1)"
    from Cons.prems o have rec: "pollPartialExits E rest ?f1 ?p1 = (f', p')"
      by (simp add: Let_def)
    have fq: "filledQty E oid = FilledQty order"
      using o by (simp add: filledQty_def)
    note IH = Cons.IH[OF rec]
    show ?thesis
    proof (cases "\<exists>x \<in> set rest. observedFilled E x")
      case True
      with IH \<open>observedFilled E oid\<close> fq show ?thesis by (clarsimp simp: algebra_simps)
    next
      case False
      then have "sum_list (map (filledQty E) rest) = 0"
        by (simp add: filledQty_none_filled)
      with False IH \<open>observedFilled E oid\<close> fq show ?thesis by clarsimp
    qed
  next
    case False
    then have fq: "filledQty E oid = 0"
      by (rule filledQty_not_filled)
    from Cons.prems False have rec: "pollPartialExits E rest (emit (OrderPolled oid) f) p = (f', p')"
      by (auto simp: Let_def observedFilled_def split: option.splits)
    from Cons.IH[OF rec] False fq show ?thesis
      by (cases "\<exists>x \<in> set rest. observedFilled E x") clarsimp+
  qed
qed

text \<open>
  What the loop leaves in the store: every save of the loop goes to the row of the one
  position, and the last save is that of the record the loop returns.
\<close>

lemma pollPartialExits_store:
  "pollPartialExits E oids f p = (f', p') \<Longrightarrow>
     ID p' = ID p
     \<and> (\<forall>k. k \<noteq> ID p \<longrightarrow> db f' k = db f k)
     \<and> ((\<forall>oid \<in> set oids. \<not> observedFilled E oid) \<longrightarrow> db f' = db f)
     \<and> ((\<exists>oid \<in> set oids. observedFilled E oid) \<and> SaveManagedPosition E p'
          \<longrightarrow> db f' (ID p) = Some p')
     \<and> ((\<forall>q. \<not> SaveManagedPosition E q) \<longrightarrow> db f' = db f)"
proof (induction oids arbitrary: f p)
  case Nil
  then show ?case by simp
next
  case (Cons oid rest)
  show ?case
  proof (cases "observedFilled E oid")
    case True
    then obtain order where o: "GetOrder E oid = Some order" "OrderStatus order = ''filled''"
      by (auto simp: observedFilled_def split: option.splits)
    let ?p1 = "p\<lparr>Status := ''PARTIAL'', RemainingQty := RemainingQty p - FilledQty order\<rparr>"
    let ?f1 = "fst (savePositionToDB E (emit (OrderPolled oid) f) ?p1)"
    from Cons.prems o have rec: "pollPartialExits E rest ?f1 ?p1 = (f', p')"
      by (simp add: Let_def)
    have d1: "db ?f1 = (if SaveManagedPosition E ?p1 then (db f)(ID p \<mapsto> ?p1) else db f)"
      by (simp add: savePositionToDB_db)
    note IH = Cons.IH[OF rec]
    have id: "ID p' = ID p" using IH by simp
    have other: "\<forall>k. k \<noteq> ID p \<longrightarrow> db f' k = db f k"
      using IH d1 by simp
    have refused: "(\<forall>q. \<not> SaveManagedPosition E q) \<longrightarrow> db f' = db f"
      using IH d1 by simp
    have held: "SaveManagedPosition E p' \<longrightarrow> db f' (ID p) = Some p'"
    proof (cases "\<exists>x \<in> set rest. observedFilled E x")
      case True
      with IH show ?thesis by simp
    next
      case False
      with pollPartialExits_result[OF rec] have "p' = ?p1" by simp
      moreover from False IH have "db f' = db ?f1" by simp
      ultimately show ?thesis using d1 by simp
    qed
    from id other refused held True show ?thesis by simp
  next
    case False
    from Cons.prems False
    have rec: "pollPartialExits E rest (emit (OrderPolled oid) f) p = (f', p')"
      by (auto simp: Let_def observedFilled_def split: option.splits)
    from Cons.IH[OF rec] False show ?thesis by simp
  qed
qed

lemma manageRiskOrders_stop_filled:
  "StopLossOrderID p \<noteq> [] \<Longrightarrow> observedFilled E (StopLossOrderID p) \<Longrightarrow>
   manageRiskOrders E f p =
     (fst (savePositionToDB E (emit (OrderPolled (StopLossOrderID p)) f)
             (p\<lparr>Status := ''STOPPED_OUT'', ClosedAt := Some (now E)\<rparr>)),
      p\<lparr>Status := ''STOPPED_OUT'', ClosedAt := Some (now E)\<rparr>)"
  by (simp add: manageRiskOrders_def Let_def)

lemma manageRiskOrders_none_filled:
  "\<not> (StopLossOrderID p \<noteq> [] \<and> observedFilled E (StopLossOrderID p)) \<Longrightarrow>
   \<not> (TakeProfitOrderID p \<noteq> [] \<and> observedFilled E (TakeProfitOrderID p)) \<Longrightarrow>
   \<exists>g. manageRiskOrders E f p = pollPartialExits E (PartialExitOrders p) g p
     \<and> filter brokerWrite (events g) = filter brokerWrite (events f)
     \<and> set (events f) \<subseteq> set (events g) \<and> db g = db f"
  by (auto simp: manageRiskOrders_def Let_def)

lemma manageRiskOrders_frame:
  assumes "manageRiskOrders E f p = (f', p')"
  shows "Side p' = Side p \<and> StopLossPrice p' = StopLossPrice p"
proof (cases "StopLossOrderID p \<noteq> [] \<and> observedFilled E (StopLossOrderID p)")
  case True
  with assms show ?thesis by (auto simp: manageRiskOrders_def Let_def)
next
  case nostop: False
  show ?thesis
  proof (cases "TakeProfitOrderID p \<noteq> [] \<and> observedFilled E (TakeProfitOrderID p)")
    case True
    with nostop assms show ?thesis by (auto simp: manageRiskOrders_def Let_def)
  next
    case False
    from manageRiskOrders_none_filled[OF nostop False, of f] assms obtain g where
      "pollPartialExits E (PartialExitOrders p) g p = (f', p')" by auto
    from pollPartialExits_result[OF this] show ?thesis
      by (cases "\<exists>oid \<in> set (PartialExitOrders p). observedFilled E oid") simp_all
  qed
qed

lemma updateTrailingStop_stop:
  "StopLossPrice (snd (updateTrailingStop E f p)) =
     (if Side p = ''buy''
      then (if CurrentPrice p * (1 - TrailingPercent p / 100) > StopLossPrice p
            then CurrentPrice p * (1 - TrailingPercent p / 100) else StopLossPrice p)
      else (if CurrentPrice p * (1 + TrailingPercent p / 100) < StopLossPrice p
            then CurrentPrice p * (1 + TrailingPercent p / 100) else StopLossPrice p))"
  by (auto simp: updateTrailingStop_def Let_def split: prod.splits
        dest!: placeStopLossOrder_frame)

lemma updateTrailingStop_frame:
  "updateTrailingStop E f p = (f', p') \<Longrightarrow>
     Status p' = Status p \<and> Side p' = Side p \<and> RemainingQty p' = RemainingQty p
     \<and> (\<forall>oid. OrderPolled oid \<in> set (events f') \<longrightarrow> OrderPolled oid \<in> set (events f))"
  by (auto simp: updateTrailingStop_def Let_def split: prod.splits if_splits
        dest!: placeStopLossOrder_frame)

subsection \<open>One position in one pass, and its lifting to passes\<close>

lemma checkPosition_ratchet:
  assumes "checkPosition E f p = Inr (f', p')"
  shows "Side p' = Side p
     \<and> (Side p = ''buy'' \<longrightarrow> StopLossPrice p \<le> StopLossPrice p')
     \<and> (Side p \<noteq> ''buy'' \<longrightarrow> StopLossPrice p' \<le> StopLossPrice p)"
proof (cases "Status p = ''CLOSED'' \<or> Status p = ''STOPPED_OUT''")
  case True
  with assms show ?thesis by (auto simp: checkPosition_def)
next
  case live: False
  show ?thesis
  proof (cases "Status p = ''PENDING''")
    case True
    with live assms have "checkEntryOrder E f p = Inr (f', p')"
      by (simp add: checkPosition_def)
    from checkEntryOrder_frame[OF this] show ?thesis by simp
  next
    case False
    obtain f1 p1 ok where upd: "updatePositionPrice E f p = (f1, p1, ok)"
      by (cases "updatePositionPrice E f p") auto
    note fr = updatePositionPrice_frame[OF upd]
    show ?thesis
    proof (cases ok)
      case False
      with live \<open>Status p \<noteq> ''PENDING''\<close> upd assms fr show ?thesis
        by (auto simp: checkPosition_def)
    next
      case True
      obtain f2 p2 where m: "(if Status p1 = ''ACTIVE'' then manageRiskOrders E f1 p1
                               else (f1, p1)) = (f2, p2)"
        by (cases "if Status p1 = ''ACTIVE'' then manageRiskOrders E f1 p1 else (f1, p1)") auto
      have p2: "Side p2 = Side p1 \<and> StopLossPrice p2 = StopLossPrice p1"
        using m by (auto split: if_splits dest: manageRiskOrders_frame)
      have chk: "checkPosition E f p = (if TrailingStop p2 then Inr (updateTrailingStop E f2 p2)
                                        else Inr (f2, p2))"
        using live \<open>Status p \<noteq> ''PENDING''\<close> upd True m
        by (simp add: checkPosition_def)
      show ?thesis
      proof (cases "TrailingStop p2")
        case False
        with chk assms p2 fr show ?thesis by simp
      next
        case True
        with chk assms have t: "updateTrailingStop E f2 p2 = (f', p')" by simp
        from updateTrailingStop_frame[OF t] updateTrailingStop_stop[of E f2 p2] t p2 fr
        show ?thesis by (auto split: if_splits)
      qed
    qed
  qed
qed

lemma checkPosition_terminal:
  assumes "Status p = ''CLOSED'' \<or> Status p = ''STOPPED_OUT'' \<or> Status p = ''FAILED''"
  shows "\<exists>f' p'. checkPosition E f p = Inr (f', p') \<and> Status p' = Status p"
proof (cases "Status p = ''FAILED''")
  case False
  with assms show ?thesis by (auto simp: checkPosition_def)
next
  case True
  obtain f1 p1 ok where upd: "updatePositionPrice E f p = (f1, p1, ok)"
    by (cases "updatePositionPrice E f p") auto
  note fr = updatePositionPrice_frame[OF upd]
  show ?thesis
  proof (cases "ok \<and> TrailingStop p1")
    case True
    obtain f2 p2 where t: "updateTrailingStop E f1 p1 = (f2, p2)"
      by (cases "updateTrailingStop E f1 p1") auto
    from updateTrailingStop_frame[OF t] fr \<open>Status p = ''FAILED''\<close> True upd t show ?thesis
      by (simp add: checkPosition_def)
  next
    case False
    with fr \<open>Status p = ''FAILED''\<close> upd show ?thesis
      by (cases ok) (auto simp: checkPosition_def)
  qed
qed

lemma checkAll_rel:
  assumes step: "\<And>g q g' q'. checkPosition E g q = Inr (g', q') \<Longrightarrow> R q q'"
  shows "checkAll E ps f = Inr (ps', f') \<Longrightarrow> map_of ps i = Some p \<Longrightarrow>
         \<exists>p'. map_of ps' i = Some p' \<and> R p p'"
proof (induction ps arbitrary: f ps')
  case Nil
  then show ?case by simp
next
  case (Cons kp rest)
  obtain k q where kp: "kp = (k, q)" by (cases kp)
  from Cons.prems(1) kp obtain f1 q1 rest1 where
    c: "checkPosition E f q = Inr (f1, q1)" and
    r: "checkAll E rest f1 = Inr (rest1, f')" and
    ps': "ps' = (k, q1) # rest1"
    by (auto split: sum.splits)
  show ?case
  proof (cases "k = i")
    case True
    with Cons.prems(2) kp have "q = p" by simp
    with step[OF c] True ps' show ?thesis by simp
  next
    case False
    with Cons.prems(2) kp have "map_of rest i = Some p" by simp
    from Cons.IH[OF r this] False ps' show ?thesis by simp
  qed
qed

lemma runPasses_rel:
  assumes step: "\<And>E g q g' q'. checkPosition E g q = Inr (g', q') \<Longrightarrow> R q q'"
    and refl: "\<And>q. R q q"
    and trans: "\<And>q r s. R q r \<Longrightarrow> R r s \<Longrightarrow> R q s"
  shows "runPasses Es m = Inr m' \<Longrightarrow> map_of (positions m) i = Some p \<Longrightarrow>
         \<exists>p'. map_of (positions m') i = Some p' \<and> R p p'"
proof (induction Es arbitrary: m p)
  case Nil
  then show ?case using refl by simp
next
  case (Cons E Es)
  from Cons.prems(1) obtain m1 where
    c: "checkPositions E m = Inr m1" and r: "runPasses Es m1 = Inr m'"
    by (auto split: sum.splits)
  from c obtain ps f where
    a: "checkAll E (positions m) (fx m) = Inr (ps, f)" and m1: "positions m1 = ps"
    by (auto simp: checkPositions_def split: sum.splits)
  have "\<exists>p1. map_of ps i = Some p1 \<and> R p p1"
    by (rule checkAll_rel[where R = R, OF _ a Cons.prems(2)]) (rule step)
  with m1 obtain p1 where
    p1: "map_of (positions m1) i = Some p1" "R p p1" by auto
  from Cons.IH[OF r p1(1)] obtain p' where "map_of (positions m') i = Some p'" "R p1 p'"
    by auto
  with p1(2) trans show ?case by blast
qed

lemma CloseManagedPosition_closes:
  assumes "map_of (positions m) i = Some p"
  shows "\<exists>m' p'. CloseManagedPosition E m i = Inr m'
            \<and> map_of (positions m') i = Some p' \<and> Status p' = ''CLOSED''"
  using assms by (simp add: CloseManagedPosition_def Let_def update_conv')

subsection \<open>Opening a position\<close>

lemma validateRequest_None:
  "validateRequest req = None \<Longrightarrow>
     (reqStopLossPrice req \<noteq> None \<or> reqStopLossPercent req \<noteq> None)
     \<and> (reqTakeProfitPrice req \<noteq> None \<or> reqTakeProfitPercent req \<noteq> None)"
  by (auto simp: validateRequest_def split: if_splits)

lemma calculateStopLoss_ok:
  "stopPrice \<noteq> None \<or> stopPercent \<noteq> None \<Longrightarrow>
     \<exists>sl. calculateStopLoss entryPrice stopPrice stopPercent side = Inr sl"
  by (auto simp: calculateStopLoss_def split: option.splits)

lemma calculateTakeProfit_ok:
  "profitPrice \<noteq> None \<or> profitPercent \<noteq> None \<Longrightarrow>
     \<exists>tp. calculateTakeProfit entryPrice profitPrice profitPercent side = Inr tp"
  by (auto simp: calculateTakeProfit_def split: option.splits)

text \<open>
  What a valid request with a quote comes to: the planned record, then the entry order,
  then (only when the broker accepted it) the working set and the store.
\<close>

lemma PlaceManagedPosition_planned:
  assumes valid: "validateRequest req = None"
    and quote: "GetLatestQuote E (reqSymbol req) = Some quote"
  shows "\<exists>planned.
      Status planned = ''PENDING''
    \<and> Quantity planned = calculateQuantity E (reqAllocationDollars req)
         (case reqEntryPrice req of
            None \<Rightarrow> if AskPrice quote > 0 then AskPrice quote else BidPrice quote
          | Some ep \<Rightarrow> ep)
    \<and> RemainingQty planned = Quantity planned
    \<and> PlaceManagedPosition E m req =
        (case PlaceOrder E (entryOrder E planned) of
           None \<Rightarrow>
             (m\<lparr>fx := emit (OrderSubmitted (entryOrder E planned))
                       (emit (QuoteRequested (reqSymbol req)) (fx m))\<rparr>,
              Inl EntryOrderFailed)
         | Some result \<Rightarrow>
             (let p = planned\<lparr>EntryOrderID := OrderID result, Status := ''PENDING''\<rparr> in
              (m\<lparr>positions := AList.update (ID p) p (positions m),
                 fx := fst (savePositionToDB E
                        (emit (OrderSubmitted (entryOrder E planned))
                           (emit (QuoteRequested (reqSymbol req)) (fx m))) p)\<rparr>,
               Inr p)))"
proof -
  let ?cp = "if AskPrice quote > 0 then AskPrice quote else BidPrice quote"
  let ?ep = "case reqEntryPrice req of None \<Rightarrow> ?cp | Some ep \<Rightarrow> ep"
  from validateRequest_None[OF valid] obtain sl tp where
    sl: "calculateStopLoss ?ep (reqStopLossPrice req) (reqStopLossPercent req) (reqSide req)
           = Inr sl" and
    tp: "calculateTakeProfit ?ep (reqTakeProfitPrice req) (reqTakeProfitPercent req)
           (reqSide req) = Inr tp"
    using calculateStopLoss_ok calculateTakeProfit_ok by metis
  let ?planned = "plannedPosition E req ?cp ?ep sl tp"
  have "PlaceManagedPosition E m req =
        (case PlaceOrder E (entryOrder E ?planned) of
           None \<Rightarrow>
             (m\<lparr>fx := emit (OrderSubmitted (entryOrder E ?planned))
                       (emit (QuoteRequested (reqSymbol req)) (fx m))\<rparr>,
              Inl EntryOrderFailed)
         | Some result \<Rightarrow>
             (let p = ?planned\<lparr>EntryOrderID := OrderID result, Status := ''PENDING''\<rparr> in
              (m\<lparr>positions := AList.update (ID p) p (positions m),
                 fx := fst (savePositionToDB E
                        (emit (OrderSubmitted (entryOrder E ?planned))
                           (emit (QuoteRequested (reqSymbol req)) (fx m))) p)\<rparr>,
               Inr p)))"
    using valid quote sl tp
    by (simp add: PlaceManagedPosition_def getCurrentPrice_def placeEntryOrder_def Let_def
          split: option.splits)
  moreover have "Status ?planned = ''PENDING''"
    and "Quantity ?planned = calculateQuantity E (reqAllocationDollars req) ?ep"
    and "RemainingQty ?planned = Quantity ?planned"
    by (simp_all add: plannedPosition_def)
  ultimately show ?thesis by blast
qed

text \<open>
  Scenario S1 runs as the specification says: quantity 10, stop 95, take-profit 110.
\<close>

lemma s1_plan:
  "snd (PlaceManagedPosition (stubEnv [] 100 True True) emptyManager s1Request)
     = Inr plannedS1"
  by (simp add: model_defs scenario_defs Let_def)

text \<open>
  C1, as the code has it. For every valid request with a quote, \<^verbatim>\<open>PlaceManagedPosition\<close>
  submits the entry order first. If the broker refuses it, the error is returned and
  nothing else happens: no record joins the working set, the store is not called, no
  status FAILED is written. If the broker accepts it, the record (PENDING, carrying the
  broker's order id) joins the working set and only then is saved; the record is returned
  whether or not the save succeeded, the store holding it only if it did.
\<close>

theorem entry_order_before_save:
  assumes valid: "validateRequest req = None"
    and quote: "GetLatestQuote E (reqSymbol req) = Some quote"
  shows "\<exists>m' r. PlaceManagedPosition E m req = (m', r) \<and>
      (case r of
         Inl e \<Rightarrow>
           e = EntryOrderFailed \<and> positions m' = positions m \<and> db (fx m') = db (fx m)
           \<and> (\<exists>order. PlaceOrder E order = None
                \<and> events (fx m') = events (fx m)
                     @ [QuoteRequested (reqSymbol req), OrderSubmitted order])
       | Inr p \<Rightarrow>
           Status p = ''PENDING'' \<and> map_of (positions m') (ID p) = Some p
           \<and> (\<exists>order result. PlaceOrder E order = Some result
                \<and> EntryOrderID p = OrderID result
                \<and> events (fx m') = events (fx m)
                     @ [QuoteRequested (reqSymbol req), OrderSubmitted order, SaveRequested p])
           \<and> db (fx m') = (if SaveManagedPosition E p then (db (fx m))(ID p \<mapsto> p)
                            else db (fx m)))"
proof -
  from PlaceManagedPosition_planned[OF valid quote, of m] obtain planned where
    pl: "PlaceManagedPosition E m req =
        (case PlaceOrder E (entryOrder E planned) of
           None \<Rightarrow>
             (m\<lparr>fx := emit (OrderSubmitted (entryOrder E planned))
                       (emit (QuoteRequested (reqSymbol req)) (fx m))\<rparr>,
              Inl EntryOrderFailed)
         | Some result \<Rightarrow>
             (let p = planned\<lparr>EntryOrderID := OrderID result, Status := ''PENDING''\<rparr> in
              (m\<lparr>positions := AList.update (ID p) p (positions m),
                 fx := fst (savePositionToDB E
                        (emit (OrderSubmitted (entryOrder E planned))
                           (emit (QuoteRequested (reqSymbol req)) (fx m))) p)\<rparr>,
               Inr p)))"
    by blast
  show ?thesis
  proof (cases "PlaceOrder E (entryOrder E planned)")
    case None
    with pl show ?thesis by auto
  next
    case (Some result)
    with pl show ?thesis
      by (auto simp: Let_def update_conv' savePositionToDB_db)
  qed
qed

theorem entry_order_before_save_witness:
  "validateRequest s1Request = None
   \<and> GetLatestQuote acceptingEnv (reqSymbol s1Request) = Some quoteAt100
   \<and> (\<exists>m' order. PlaceManagedPosition acceptingEnv emptyManager s1Request = (m', Inr plannedS1)
         \<and> events (fx m') = [QuoteRequested ''SPY'', OrderSubmitted order,
                               SaveRequested plannedS1])"
proof -
  have v: "validateRequest s1Request = None"
    by (simp add: validateRequest_def s1Request_def)
  have q: "GetLatestQuote acceptingEnv (reqSymbol s1Request) = Some quoteAt100"
    by (simp add: scenario_defs)
  have r: "snd (PlaceManagedPosition acceptingEnv emptyManager s1Request) = Inr plannedS1"
    by (simp add: model_defs scenario_defs Let_def)
  from entry_order_before_save[OF v q, of emptyManager] obtain m' res where
    a: "PlaceManagedPosition acceptingEnv emptyManager s1Request = (m', res)" and
    b: "case res of
         Inl e \<Rightarrow>
           e = EntryOrderFailed \<and> positions m' = positions emptyManager
           \<and> db (fx m') = db (fx emptyManager)
           \<and> (\<exists>order. PlaceOrder acceptingEnv order = None
                \<and> events (fx m') = events (fx emptyManager)
                     @ [QuoteRequested (reqSymbol s1Request), OrderSubmitted order])
       | Inr p \<Rightarrow>
           Status p = ''PENDING'' \<and> map_of (positions m') (ID p) = Some p
           \<and> (\<exists>order result. PlaceOrder acceptingEnv order = Some result
                \<and> EntryOrderID p = OrderID result
                \<and> events (fx m') = events (fx emptyManager)
                     @ [QuoteRequested (reqSymbol s1Request), OrderSubmitted order,
                        SaveRequested p])
           \<and> db (fx m') = (if SaveManagedPosition acceptingEnv p
                            then (db (fx emptyManager))(ID p \<mapsto> p)
                            else db (fx emptyManager))"
    by blast
  from a r have res: "res = Inr plannedS1" by simp
  from b res have "\<exists>order. events (fx m') =
      [QuoteRequested ''SPY'', OrderSubmitted order, SaveRequested plannedS1]"
    by (auto simp: emptyManager_def emptyEffects_def s1Request_def)
  with a res v q show ?thesis by blast
qed

text \<open>
  The claim as stated fails twice. With a broker that refuses the entry order, the
  operation leaves no record and never calls the store (nothing is marked FAILED or
  persisted). With a store that fails, the entry order has already been submitted when
  the save is attempted, and the record is returned all the same.
\<close>

theorem submit_precedes_save_counterexample:
  "snd (PlaceManagedPosition refusingEnv emptyManager s1Request) = Inl EntryOrderFailed
   \<and> positions (fst (PlaceManagedPosition refusingEnv emptyManager s1Request)) = []
   \<and> db (fx (fst (PlaceManagedPosition refusingEnv emptyManager s1Request))) ''pos_7'' = None
   \<and> events (fx (fst (PlaceManagedPosition refusingEnv emptyManager s1Request)))
       = [QuoteRequested ''SPY'', OrderSubmitted (entryOrder refusingEnv plannedS1)]
   \<and> snd (PlaceManagedPosition failingStoreEnv emptyManager s1Request) = Inr plannedS1
   \<and> events (fx (fst (PlaceManagedPosition failingStoreEnv emptyManager s1Request)))
       = [QuoteRequested ''SPY'', OrderSubmitted (entryOrder failingStoreEnv plannedS1),
          SaveRequested plannedS1]
   \<and> db (fx (fst (PlaceManagedPosition failingStoreEnv emptyManager s1Request))) ''pos_7''
       = None"
  by (simp add: model_defs scenario_defs Let_def)

text \<open>
  C8, as the code has it. For every valid request whose \<^verbatim>\<open>float64\<close> quotient
  allocation / price is a finite number \<open>q\<close> (so the price is not zero), the planned quantity
  is \<open>\<lfloor>q\<rfloor>\<close>, the floor of the quotient as the machine rounds it. The entry order is
  submitted with that quantity whatever it is, zero included. If the broker accepts the
  order, the record is created with that quantity and the same remaining quantity, joins
  the working set and is offered to the store; if the broker refuses it, the error is
  returned and no record is created. The validation does not look at the price: a valid
  request stays valid when its entry price is set to zero.
\<close>

theorem planned_quantity_is_floor:
  assumes valid: "validateRequest req = None"
    and quote: "GetLatestQuote E (reqSymbol req) = Some quote"
    and price: "price = (case reqEntryPrice req of
                           None \<Rightarrow> if AskPrice quote > 0 then AskPrice quote else BidPrice quote
                         | Some ep \<Rightarrow> ep)"
    and finite: "quo64 E (reqAllocationDollars req) price = Some q"
  shows "(\<exists>m' r order. PlaceManagedPosition E m req = (m', r)
           \<and> Qty order = of_int \<lfloor>q\<rfloor>
           \<and> events (fx m') = events (fx m)
                @ [QuoteRequested (reqSymbol req), OrderSubmitted order]
                @ (case r of Inl e \<Rightarrow> [] | Inr p \<Rightarrow> [SaveRequested p])
           \<and> (case r of
                 Inl e \<Rightarrow>
                   e = EntryOrderFailed \<and> PlaceOrder E order = None
                   \<and> positions m' = positions m
               | Inr p \<Rightarrow>
                   PlaceOrder E order \<noteq> None
                   \<and> Quantity p = of_int \<lfloor>q\<rfloor> \<and> RemainingQty p = of_int \<lfloor>q\<rfloor>
                   \<and> map_of (positions m') (ID p) = Some p))
       \<and> validateRequest (req\<lparr>reqEntryPrice := Some 0\<rparr>) = None"
proof
  from PlaceManagedPosition_planned[OF valid quote, of m] price obtain planned where
    q: "Quantity planned = calculateQuantity E (reqAllocationDollars req) price"
       "RemainingQty planned = Quantity planned" and
    pl: "PlaceManagedPosition E m req =
        (case PlaceOrder E (entryOrder E planned) of
           None \<Rightarrow>
             (m\<lparr>fx := emit (OrderSubmitted (entryOrder E planned))
                       (emit (QuoteRequested (reqSymbol req)) (fx m))\<rparr>,
              Inl EntryOrderFailed)
         | Some result \<Rightarrow>
             (let p = planned\<lparr>EntryOrderID := OrderID result, Status := ''PENDING''\<rparr> in
              (m\<lparr>positions := AList.update (ID p) p (positions m),
                 fx := fst (savePositionToDB E
                        (emit (OrderSubmitted (entryOrder E planned))
                           (emit (QuoteRequested (reqSymbol req)) (fx m))) p)\<rparr>,
               Inr p)))"
    by auto
  have fl: "Quantity planned = of_int \<lfloor>q\<rfloor>" "RemainingQty planned = of_int \<lfloor>q\<rfloor>"
    using q finite by (simp_all add: calculateQuantity_def)
  have qty: "Qty (entryOrder E planned) = of_int \<lfloor>q\<rfloor>"
    using fl by (simp add: entryOrder_def newOrder_def Let_def)
  show "\<exists>m' r order. PlaceManagedPosition E m req = (m', r)
           \<and> Qty order = of_int \<lfloor>q\<rfloor>
           \<and> events (fx m') = events (fx m)
                @ [QuoteRequested (reqSymbol req), OrderSubmitted order]
                @ (case r of Inl e \<Rightarrow> [] | Inr p \<Rightarrow> [SaveRequested p])
           \<and> (case r of
                 Inl e \<Rightarrow>
                   e = EntryOrderFailed \<and> PlaceOrder E order = None
                   \<and> positions m' = positions m
               | Inr p \<Rightarrow>
                   PlaceOrder E order \<noteq> None
                   \<and> Quantity p = of_int \<lfloor>q\<rfloor> \<and> RemainingQty p = of_int \<lfloor>q\<rfloor>
                   \<and> map_of (positions m') (ID p) = Some p)"
  proof (cases "PlaceOrder E (entryOrder E planned)")
    case None
    with pl qty show ?thesis
      by (intro exI[of _ "entryOrder E planned"] exI) auto
  next
    case (Some result)
    let ?p = "planned\<lparr>EntryOrderID := OrderID result, Status := ''PENDING''\<rparr>"
    let ?m' = "m\<lparr>positions := AList.update (ID ?p) ?p (positions m),
                   fx := fst (savePositionToDB E
                          (emit (OrderSubmitted (entryOrder E planned))
                             (emit (QuoteRequested (reqSymbol req)) (fx m))) ?p)\<rparr>"
    have a: "PlaceManagedPosition E m req = (?m', Inr ?p)"
      using pl Some by (simp add: Let_def)
    have b: "events (fx ?m') = events (fx m)
                @ [QuoteRequested (reqSymbol req), OrderSubmitted (entryOrder E planned)]
                @ [SaveRequested ?p]"
      by simp
    have c: "Quantity ?p = of_int \<lfloor>q\<rfloor>" "RemainingQty ?p = of_int \<lfloor>q\<rfloor>"
      "map_of (positions ?m') (ID ?p) = Some ?p"
      using fl by (simp_all add: update_conv')
    show ?thesis
      apply (rule exI[of _ ?m'])
      apply (rule exI[of _ "Inr ?p"])
      apply (rule exI[of _ "entryOrder E planned"])
      using a b c qty Some by simp
  qed
next
  from valid show "validateRequest (req\<lparr>reqEntryPrice := Some 0\<rparr>) = None"
    by (auto simp: validateRequest_def split: if_splits)
qed

theorem planned_quantity_is_floor_witness:
  "validateRequest s1Request = None
   \<and> GetLatestQuote acceptingEnv (reqSymbol s1Request) = Some quoteAt100
   \<and> quo64 acceptingEnv (reqAllocationDollars s1Request) 100 = Some 10
   \<and> (\<exists>m' p order. PlaceManagedPosition acceptingEnv emptyManager s1Request = (m', Inr p)
         \<and> Quantity p = 10 \<and> RemainingQty p = 10 \<and> Qty order = 10
         \<and> events (fx m') = [QuoteRequested ''SPY'', OrderSubmitted order, SaveRequested p])
   \<and> (\<exists>m' order. PlaceManagedPosition refusingEnv emptyManager s1Request
                      = (m', Inl EntryOrderFailed)
         \<and> Qty order = 10 \<and> positions m' = []
         \<and> events (fx m') = [QuoteRequested ''SPY'', OrderSubmitted order])"
proof -
  have v: "validateRequest s1Request = None"
    by (simp add: validateRequest_def s1Request_def)
  have q: "GetLatestQuote acceptingEnv (reqSymbol s1Request) = Some quoteAt100"
    "GetLatestQuote refusingEnv (reqSymbol s1Request) = Some quoteAt100"
    by (simp_all add: scenario_defs)
  have pr: "(100::real) = (case reqEntryPrice s1Request of
                None \<Rightarrow> if AskPrice quoteAt100 > 0 then AskPrice quoteAt100
                        else BidPrice quoteAt100
              | Some ep \<Rightarrow> ep)"
    by (simp add: s1Request_def quoteAt100_def)
  have fin: "quo64 acceptingEnv (reqAllocationDollars s1Request) 100 = Some 10"
    "quo64 refusingEnv (reqAllocationDollars s1Request) 100 = Some 10"
    by (simp_all add: scenario_defs)
  have acc: "\<And>order. PlaceOrder acceptingEnv order \<noteq> None"
    and ref: "\<And>order. PlaceOrder refusingEnv order = None"
    by (simp_all add: scenario_defs)
  have e: "events (fx emptyManager) = []" "positions emptyManager = []"
    "reqSymbol s1Request = ''SPY''"
    by (simp_all add: scenario_defs)
  from planned_quantity_is_floor[OF v q(1) pr fin(1), of emptyManager, THEN conjunct1]
  obtain m1 r1 o1 where
    a1: "PlaceManagedPosition acceptingEnv emptyManager s1Request = (m1, r1)"
      "Qty o1 = of_int \<lfloor>10::real\<rfloor>"
      "events (fx m1) = events (fx emptyManager)
          @ [QuoteRequested (reqSymbol s1Request), OrderSubmitted o1]
          @ (case r1 of Inl e \<Rightarrow> [] | Inr p \<Rightarrow> [SaveRequested p])"
      "case r1 of
         Inl e \<Rightarrow> e = EntryOrderFailed \<and> PlaceOrder acceptingEnv o1 = None
                   \<and> positions m1 = positions emptyManager
       | Inr p \<Rightarrow> PlaceOrder acceptingEnv o1 \<noteq> None
                   \<and> Quantity p = of_int \<lfloor>10::real\<rfloor> \<and> RemainingQty p = of_int \<lfloor>10::real\<rfloor>
                   \<and> map_of (positions m1) (ID p) = Some p"
    by blast
  have a: "\<exists>m' p order. PlaceManagedPosition acceptingEnv emptyManager s1Request = (m', Inr p)
         \<and> Quantity p = 10 \<and> RemainingQty p = 10 \<and> Qty order = 10
         \<and> events (fx m') = [QuoteRequested ''SPY'', OrderSubmitted order, SaveRequested p]"
  proof (cases r1)
    case (Inl e1)
    with a1(4) acc show ?thesis by simp
  next
    case (Inr p1)
    with a1 e show ?thesis by auto
  qed
  from planned_quantity_is_floor[OF v q(2) pr fin(2), of emptyManager, THEN conjunct1]
  obtain m2 r2 o2 where
    a2: "PlaceManagedPosition refusingEnv emptyManager s1Request = (m2, r2)"
      "Qty o2 = of_int \<lfloor>10::real\<rfloor>"
      "events (fx m2) = events (fx emptyManager)
          @ [QuoteRequested (reqSymbol s1Request), OrderSubmitted o2]
          @ (case r2 of Inl e \<Rightarrow> [] | Inr p \<Rightarrow> [SaveRequested p])"
      "case r2 of
         Inl e \<Rightarrow> e = EntryOrderFailed \<and> PlaceOrder refusingEnv o2 = None
                   \<and> positions m2 = positions emptyManager
       | Inr p \<Rightarrow> PlaceOrder refusingEnv o2 \<noteq> None
                   \<and> Quantity p = of_int \<lfloor>10::real\<rfloor> \<and> RemainingQty p = of_int \<lfloor>10::real\<rfloor>
                   \<and> map_of (positions m2) (ID p) = Some p"
    by blast
  have b: "\<exists>m' order. PlaceManagedPosition refusingEnv emptyManager s1Request
                      = (m', Inl EntryOrderFailed)
         \<and> Qty order = 10 \<and> positions m' = []
         \<and> events (fx m') = [QuoteRequested ''SPY'', OrderSubmitted order]"
  proof (cases r2)
    case (Inl e2)
    with a2 e show ?thesis by auto
  next
    case (Inr p2)
    with a2(4) ref show ?thesis by simp
  qed
  from v q(1) fin(1) a b show ?thesis by blast
qed

text \<open>
  The claim as stated fails: allocation 50 at price 100 sizes to zero, and the operation
  still submits the entry order (quantity 0), creates the record and saves it; a limit
  request with entry price 0 passes the validation.
\<close>

theorem zero_quantity_counterexample:
  "PlaceManagedPosition acceptingEnv emptyManager smallRequest
     = (\<lparr>positions = [(''pos_7'', zeroQuantityPosition)],
         fx = \<lparr>db = [''pos_7'' \<mapsto> zeroQuantityPosition],
                events = [QuoteRequested ''SPY'',
                          OrderSubmitted (entryOrder acceptingEnv zeroQuantityPosition),
                          SaveRequested zeroQuantityPosition]\<rparr>\<rparr>,
        Inr zeroQuantityPosition)
   \<and> Quantity zeroQuantityPosition = 0
   \<and> Qty (entryOrder acceptingEnv zeroQuantityPosition) = 0
   \<and> validateRequest (s1Request\<lparr>reqEntryStrategy := ''limit'', reqEntryPrice := Some 0\<rparr>)
        = None"
  by (simp add: model_defs scenario_defs Let_def)

subsection \<open>The entry order of a pending position\<close>

text \<open>
  C10. When the broker reports the entry order filled, \<^verbatim>\<open>checkEntryOrder\<close> ends in a nil
  pointer dereference exactly when the order carries no fill-average price; with a price
  present it returns normally. Any statement about the handler's result on a filled order
  therefore needs the price to be present.
\<close>

theorem checkEntryOrder_needs_fill_price:
  assumes "GetOrder E (EntryOrderID position) = Some order"
    and "OrderStatus order = ''filled''"
  shows "(FilledAvgPrice order = None \<longrightarrow>
            checkEntryOrder E f position = Inl NilPointerDereference)
       \<and> (FilledAvgPrice order \<noteq> None \<longrightarrow> (\<exists>r. checkEntryOrder E f position = Inr r))"
  using assms
  by (auto simp: checkEntryOrder_def Let_def split: option.splits sum.splits)

theorem checkEntryOrder_needs_fill_price_witness:
  "checkEntryOrder
      (stubEnv [(''market-1'', stubOrder ''market-1'' 10 ''filled'' 10 None)] 100 True True)
      emptyEffects plannedS1 = Inl NilPointerDereference
   \<and> (\<exists>r. checkEntryOrder filledAt110 emptyEffects plannedS1 = Inr r)"
  using checkEntryOrder_needs_fill_price
     [of "stubEnv [(''market-1'', stubOrder ''market-1'' 10 ''filled'' 10 None)] 100 True True"
         plannedS1 "stubOrder ''market-1'' 10 ''filled'' 10 None" emptyEffects]
    checkEntryOrder_needs_fill_price
     [of filledAt110 plannedS1 "stubOrder ''market-1'' 10 ''filled'' 10 (Some 110)"
         emptyEffects]
  by (simp add: stubEnv_def stubOrder_def plannedS1_def filledAt110_def)

text \<open>
  C5, as the code has it. For every pending position whose entry order the broker reports
  filled with a fill-average price, the pass sets the entry price to that average and the
  status to ACTIVE, leaves the stop, take-profit and partial-exit prices as planned (they
  are not recomputed from the fill), then submits the stop order, the take-profit order
  and, when a partial exit is enabled, the partial-exit order, each at the planned price,
  and last asks the store to save the record: the store holds the record if that save
  succeeds and is unchanged if it fails.
\<close>

theorem entry_filled_activates:
  assumes "Status position = ''PENDING''"
    and "GetOrder E (EntryOrderID position) = Some order"
    and "OrderStatus order = ''filled''"
    and "FilledAvgPrice order = Some fillPrice"
  shows "\<exists>f' p'. checkPosition E f position = Inr (f', p')
      \<and> Status p' = ''ACTIVE'' \<and> EntryPrice p' = fillPrice
      \<and> StopLossPrice p' = StopLossPrice position
      \<and> TakeProfitPrice p' = TakeProfitPrice position
      \<and> PartialExit p' = PartialExit position
      \<and> events f' = events f
           @ [OrderPolled (EntryOrderID position),
              OrderSubmitted (stopLossOrder E position),
              OrderSubmitted (takeProfitOrder E position)]
           @ (case PartialExit position of
                None \<Rightarrow> []
              | Some cfg \<Rightarrow>
                  if Enabled cfg then [OrderSubmitted (partialExitOrder E position cfg)] else [])
           @ [SaveRequested p']
      \<and> ID p' = ID position
      \<and> db f' = (if SaveManagedPosition E p' then (db f)(ID position \<mapsto> p') else db f)"
proof -
  let ?p0 = "position\<lparr>Status := ''ACTIVE'', EntryPrice := fillPrice, UpdatedAt := now E\<rparr>"
  let ?f1 = "emit (OrderPolled (EntryOrderID position)) f"
  have same: "stopLossOrder E ?p0 = stopLossOrder E position"
    "takeProfitOrder E ?p0 = takeProfitOrder E position"
    "\<And>cfg. partialExitOrder E ?p0 cfg = partialExitOrder E position cfg"
    by (simp_all add: stopLossOrder_def takeProfitOrder_def partialExitOrder_def exitSideOf_def)
  from placeRiskOrders_result[of E ?f1 ?p0] obtain f2 p2 where
    r: "placeRiskOrders E ?f1 ?p0 = Inr (f2, p2)"
      "Status p2 = ''ACTIVE''" "EntryPrice p2 = fillPrice"
      "StopLossPrice p2 = StopLossPrice position" "TakeProfitPrice p2 = TakeProfitPrice position"
      "PartialExit p2 = PartialExit position"
      "events f2 = events ?f1
          @ [OrderSubmitted (stopLossOrder E ?p0), OrderSubmitted (takeProfitOrder E ?p0)]
          @ (case PartialExit ?p0 of
               None \<Rightarrow> []
             | Some cfg \<Rightarrow>
                 if Enabled cfg then [OrderSubmitted (partialExitOrder E ?p0 cfg)] else [])"
    by auto
  have "checkPosition E f position = Inr (fst (savePositionToDB E f2 p2), p2)"
    using assms r(1) by (simp add: checkPosition_def checkEntryOrder_def Let_def)
  moreover have "events (fst (savePositionToDB E f2 p2)) = events f
           @ [OrderPolled (EntryOrderID position),
              OrderSubmitted (stopLossOrder E position),
              OrderSubmitted (takeProfitOrder E position)]
           @ (case PartialExit position of
                None \<Rightarrow> []
              | Some cfg \<Rightarrow>
                  if Enabled cfg then [OrderSubmitted (partialExitOrder E position cfg)] else [])
           @ [SaveRequested p2]"
    using r(7) same by (simp split: option.splits)
  moreover from placeRiskOrders_store[OF r(1)] have st: "db f2 = db f" "ID p2 = ID position"
    by simp_all
  moreover have "db (fst (savePositionToDB E f2 p2))
      = (if SaveManagedPosition E p2 then (db f)(ID position \<mapsto> p2) else db f)"
    using st by (simp add: savePositionToDB_db)
  ultimately show ?thesis using r by blast
qed

theorem entry_filled_activates_witness:
  "\<exists>f' p'. checkPosition filledAt110 emptyEffects plannedS1 = Inr (f', p')
      \<and> Status p' = ''ACTIVE'' \<and> EntryPrice p' = 110
      \<and> StopLossPrice p' = 95 \<and> TakeProfitPrice p' = 110
      \<and> events f' = [OrderPolled ''market-1'',
                      OrderSubmitted (stopLossOrder filledAt110 plannedS1),
                      OrderSubmitted (takeProfitOrder filledAt110 plannedS1),
                      SaveRequested p']
      \<and> db f' = [''pos_7'' \<mapsto> p']"
proof -
  have h: "Status plannedS1 = ''PENDING''"
    "GetOrder filledAt110 (EntryOrderID plannedS1)
       = Some (stubOrder ''market-1'' 10 ''filled'' 10 (Some 110))"
    "OrderStatus (stubOrder ''market-1'' 10 ''filled'' 10 (Some 110)) = ''filled''"
    "FilledAvgPrice (stubOrder ''market-1'' 10 ''filled'' 10 (Some 110)) = Some 110"
    by (simp_all add: scenario_defs)
  have q: "StopLossPrice plannedS1 = 95" "TakeProfitPrice plannedS1 = 110"
    "PartialExit plannedS1 = None" "EntryOrderID plannedS1 = ''market-1''"
    "events emptyEffects = []" "db emptyEffects = Map.empty"
    "ID plannedS1 = ''pos_7''" "\<And>q. SaveManagedPosition filledAt110 q"
    by (simp_all add: scenario_defs)
  from entry_filled_activates[OF h, of emptyEffects] q show ?thesis
    by auto
qed

text \<open>
  The claim as stated fails: the record of scenario S1 (planned at 100, stop 5 percent,
  take-profit 10 percent) filled at 110 keeps its stop at 95 and its take-profit at 110,
  where 5 and 10 percent of the fill would give 104.5 and 121; the stop order goes out
  at 95.
\<close>

theorem protective_prices_not_recomputed_counterexample:
  "checkPosition filledAt110 emptyEffects plannedS1
     = Inr (\<lparr>db = [''pos_7'' \<mapsto> afterFill],
             events = [OrderPolled ''market-1'',
                       OrderSubmitted (stopLossOrder filledAt110 plannedS1),
                       OrderSubmitted (takeProfitOrder filledAt110 plannedS1),
                       SaveRequested afterFill]\<rparr>,
            afterFill)
   \<and> EntryPrice afterFill = 110 \<and> StopLossPercent afterFill = 5
   \<and> TakeProfitPercent afterFill = 10
   \<and> StopLossPrice afterFill = 95 \<and> StopLossPrice afterFill \<noteq> 110 * (1 - 5 / 100)
   \<and> TakeProfitPrice afterFill = 110 \<and> TakeProfitPrice afterFill \<noteq> 110 * (1 + 10 / 100)
   \<and> StopPrice (stopLossOrder filledAt110 plannedS1) = Some 95"
  by (simp add: model_defs scenario_defs Let_def)

text \<open>
  C6, as the code has it. For a pending position whose entry order the broker reports as
  canceled or rejected, the pass only polls the order: the record is left as it is (still
  PENDING), nothing is saved, and no other call is made. The source never assigns the
  status FAILED.
\<close>

theorem entry_not_filled_stays_pending:
  assumes "Status position = ''PENDING''"
    and "GetOrder E (EntryOrderID position) = Some order"
    and "OrderStatus order = ''canceled'' \<or> OrderStatus order = ''rejected''"
  shows "checkPosition E f position = Inr (emit (OrderPolled (EntryOrderID position)) f, position)"
  using assms by (auto simp: checkPosition_def checkEntryOrder_def Let_def)

theorem entry_not_filled_stays_pending_witness:
  "checkPosition
      (stubEnv [(''market-1'', stubOrder ''market-1'' 10 ''rejected'' 0 None)] 100 True True)
      emptyEffects plannedS1
     = Inr (emit (OrderPolled ''market-1'') emptyEffects, plannedS1)"
  using entry_not_filled_stays_pending
     [of plannedS1
         "stubEnv [(''market-1'', stubOrder ''market-1'' 10 ''rejected'' 0 None)] 100 True True"
         "stubOrder ''market-1'' 10 ''rejected'' 0 None" emptyEffects]
  by (simp add: stubEnv_def stubOrder_def plannedS1_def)

text \<open>
  The claim as stated fails: with the entry order canceled, the record is still PENDING
  after the pass and the store has received nothing.
\<close>

theorem canceled_entry_counterexample:
  "checkPosition
      (stubEnv [(''market-1'', stubOrder ''market-1'' 10 ''canceled'' 0 None)] 100 True True)
      emptyEffects plannedS1
     = Inr (\<lparr>db = Map.empty, events = [OrderPolled ''market-1'']\<rparr>, plannedS1)
   \<and> Status plannedS1 = ''PENDING'' \<and> Status plannedS1 \<noteq> ''FAILED''"
  by (simp add: checkPosition_def checkEntryOrder_def stubEnv_def stubOrder_def
        plannedS1_def emptyEffects_def emit_def)

subsection \<open>The protective orders of an active position\<close>

text \<open>
  C4, as the code has it. When the stop and the take-profit order of an active position
  would both be observed filled in one pass (a quote being available, trailing off), the
  stop is polled first and is the only order polled: the status becomes STOPPED_OUT, the
  store is asked once to save the record, and the pass makes no other call. The store
  holds the record if that save succeeds and is unchanged if it fails. The take-profit
  order is neither polled nor cancelled, and nothing is submitted.
\<close>

theorem stop_wins_race:
  assumes active: "Status position = ''ACTIVE''"
    and quote: "GetLatestQuote E (Symbol position) = Some quote"
    and notrail: "\<not> TrailingStop position"
    and stop: "StopLossOrderID position \<noteq> []" "observedFilled E (StopLossOrderID position)"
    and take: "TakeProfitOrderID position \<noteq> []" "observedFilled E (TakeProfitOrderID position)"
  shows "\<exists>f' p'. checkPosition E f position = Inr (f', p')
      \<and> Status p' = ''STOPPED_OUT''
      \<and> events f' = events f @ [QuoteRequested (Symbol position),
                                 OrderPolled (StopLossOrderID position), SaveRequested p']
      \<and> ID p' = ID position
      \<and> db f' = (if SaveManagedPosition E p' then (db f)(ID position \<mapsto> p') else db f)"
proof -
  from updatePositionPrice_ok[OF quote, of f] obtain p1 where
    upd: "updatePositionPrice E f position = (emit (QuoteRequested (Symbol position)) f, p1, True)"
    and p1: "Status p1 = Status position" "StopLossOrderID p1 = StopLossOrderID position"
      "TrailingStop p1 = TrailingStop position"
    by blast
  from updatePositionPrice_store[OF upd] have id1: "ID p1 = ID position" by simp
  let ?f1 = "emit (QuoteRequested (Symbol position)) f"
  let ?p2 = "p1\<lparr>Status := ''STOPPED_OUT'', ClosedAt := Some (now E)\<rparr>"
  let ?f2 = "fst (savePositionToDB E (emit (OrderPolled (StopLossOrderID p1)) ?f1) ?p2)"
  have m: "manageRiskOrders E ?f1 p1 = (?f2, ?p2)"
    using stop p1 by (simp add: manageRiskOrders_stop_filled)
  have "checkPosition E f position = Inr (?f2, ?p2)"
    using active upd p1 m notrail by (simp add: checkPosition_def)
  moreover have "db ?f2 = (if SaveManagedPosition E ?p2 then (db f)(ID position \<mapsto> ?p2)
                           else db f)"
    using id1 by (simp add: savePositionToDB_db)
  moreover have "ID ?p2 = ID position" using id1 by simp
  ultimately show ?thesis using p1 by simp
qed

theorem stop_wins_race_witness:
  "\<exists>f' p'. checkPosition raceEnv emptyEffects activePosition = Inr (f', p')
      \<and> Status p' = ''STOPPED_OUT''
      \<and> events f' = [QuoteRequested ''SPY'', OrderPolled ''stop-1'', SaveRequested p']
      \<and> db f' = [''pos_7'' \<mapsto> p']"
proof -
  have h: "Status activePosition = ''ACTIVE''"
    "GetLatestQuote raceEnv (Symbol activePosition) = Some quoteAt100"
    "\<not> TrailingStop activePosition"
    "StopLossOrderID activePosition \<noteq> []"
    "observedFilled raceEnv (StopLossOrderID activePosition)"
    "TakeProfitOrderID activePosition \<noteq> []"
    "observedFilled raceEnv (TakeProfitOrderID activePosition)"
    by (simp_all add: observedFilled_def scenario_defs)
  have q: "Symbol activePosition = ''SPY''" "StopLossOrderID activePosition = ''stop-1''"
    "events emptyEffects = []" "db emptyEffects = Map.empty"
    "ID activePosition = ''pos_7''" "\<And>q. SaveManagedPosition raceEnv q"
    by (simp_all add: scenario_defs)
  from stop_wins_race[OF h, of emptyEffects] q show ?thesis
    by auto
qed

text \<open>
  The claim as stated fails: in scenario S6 the pass ends with the position stopped out
  and has asked the broker for one poll only; no cancellation of the take-profit order
  \<open>limit-1\<close> is ever requested.
\<close>

theorem sibling_not_cancelled_counterexample:
  "checkPosition raceEnv emptyEffects activePosition
     = Inr (\<lparr>db = [''pos_7'' \<mapsto> afterRace],
             events = [QuoteRequested ''SPY'', OrderPolled ''stop-1'', SaveRequested afterRace]\<rparr>,
            afterRace)
   \<and> TakeProfitOrderID activePosition = ''limit-1''
   \<and> CancelRequested ''limit-1''
        \<notin> set [QuoteRequested ''SPY'', OrderPolled ''stop-1'', SaveRequested afterRace]"
  by (simp add: model_defs scenario_defs Let_def)

text \<open>
  C2, as the code has it. For a position whose status is ACTIVE (a quote being available,
  trailing off, neither protective order observed filled), a pass that observes a
  partial-exit order filled subtracts the filled quantities from the remaining quantity,
  sets the status to PARTIAL and asks the store to save the record after each fill: when
  the save of the final record succeeds the store holds that record, when the store
  refuses every save the store is unchanged, and no other position's row is touched. The
  pass requests no cancellation and submits no order, so the stop and take-profit orders
  stay as they were placed.
\<close>

theorem partial_exit_fill:
  assumes active: "Status position = ''ACTIVE''"
    and quote: "GetLatestQuote E (Symbol position) = Some quote"
    and notrail: "\<not> TrailingStop position"
    and stop: "\<not> (StopLossOrderID position \<noteq> [] \<and> observedFilled E (StopLossOrderID position))"
    and take: "\<not> (TakeProfitOrderID position \<noteq> []
                    \<and> observedFilled E (TakeProfitOrderID position))"
    and part: "\<exists>oid \<in> set (PartialExitOrders position). observedFilled E oid"
  shows "\<exists>f' p'. checkPosition E f position = Inr (f', p')
      \<and> Status p' = ''PARTIAL''
      \<and> RemainingQty p' = RemainingQty position
            - sum_list (map (filledQty E) (PartialExitOrders position))
      \<and> StopLossOrderID p' = StopLossOrderID position
      \<and> TakeProfitOrderID p' = TakeProfitOrderID position
      \<and> SaveRequested p' \<in> set (events f')
      \<and> filter brokerWrite (events f') = filter brokerWrite (events f)
      \<and> ID p' = ID position
      \<and> (SaveManagedPosition E p' \<longrightarrow> db f' = (db f)(ID position \<mapsto> p'))
      \<and> ((\<forall>q. \<not> SaveManagedPosition E q) \<longrightarrow> db f' = db f)
      \<and> (\<forall>k. k \<noteq> ID position \<longrightarrow> db f' k = db f k)"
proof -
  from updatePositionPrice_ok[OF quote, of f] obtain p1 where
    upd: "updatePositionPrice E f position = (emit (QuoteRequested (Symbol position)) f, p1, True)"
    and p1: "Status p1 = Status position" "StopLossOrderID p1 = StopLossOrderID position"
      "TakeProfitOrderID p1 = TakeProfitOrderID position"
      "PartialExitOrders p1 = PartialExitOrders position"
      "RemainingQty p1 = RemainingQty position"
      "TrailingStop p1 = TrailingStop position"
    by blast
  from updatePositionPrice_store[OF upd] have id1: "ID p1 = ID position" by simp
  let ?f1 = "emit (QuoteRequested (Symbol position)) f"
  from manageRiskOrders_none_filled[of p1 E ?f1] stop take p1 obtain g where
    g: "manageRiskOrders E ?f1 p1 = pollPartialExits E (PartialExitOrders p1) g p1"
      "filter brokerWrite (events g) = filter brokerWrite (events ?f1)"
      "db g = db f"
    by auto
  obtain f' p' where poll: "pollPartialExits E (PartialExitOrders p1) g p1 = (f', p')"
    by (cases "pollPartialExits E (PartialExitOrders p1) g p1") auto
  from pollPartialExits_result[OF poll] part p1 have res:
    "p' = p1\<lparr>Status := ''PARTIAL'',
              RemainingQty := RemainingQty p1 - sum_list (map (filledQty E) (PartialExitOrders p1))\<rparr>"
    "filter brokerWrite (events f') = filter brokerWrite (events g)"
    "SaveRequested p' \<in> set (events f')"
    by auto
  have "checkPosition E f position = Inr (f', p')"
    using active upd p1 g poll notrail res(1) by (simp add: checkPosition_def)
  moreover have "filter brokerWrite (events f') = filter brokerWrite (events f)"
    using res(2) g(2) by simp
  moreover from pollPartialExits_store[OF poll] part p1 id1 g(3) have st:
    "ID p' = ID position"
    "\<forall>k. k \<noteq> ID position \<longrightarrow> db f' k = db f k"
    "SaveManagedPosition E p' \<longrightarrow> db f' (ID position) = Some p'"
    "(\<forall>q. \<not> SaveManagedPosition E q) \<longrightarrow> db f' = db f"
    by auto
  moreover have "SaveManagedPosition E p' \<longrightarrow> db f' = (db f)(ID position \<mapsto> p')"
    using st(2,3) by (auto intro!: ext)
  ultimately show ?thesis using res p1 by simp
qed

theorem partial_exit_fill_witness:
  "(\<exists>f' p'. checkPosition partialFillEnv emptyEffects partialExitPosition = Inr (f', p')
       \<and> Status p' = ''PARTIAL'' \<and> RemainingQty p' = 5
       \<and> StopLossOrderID p' = ''stop-1'' \<and> TakeProfitOrderID p' = ''limit-1''
       \<and> filter brokerWrite (events f') = []
       \<and> db f' = [''pos_7'' \<mapsto> p'])
   \<and> (\<exists>f' p'. checkPosition partialFillStoreDown emptyEffects partialExitPosition
                  = Inr (f', p')
       \<and> Status p' = ''PARTIAL'' \<and> RemainingQty p' = 5
       \<and> SaveRequested p' \<in> set (events f')
       \<and> db f' = Map.empty)"
proof -
  have h: "Status partialExitPosition = ''ACTIVE''"
    "GetLatestQuote partialFillEnv (Symbol partialExitPosition)
       = Some \<lparr>QuoteSymbol = ''SPY'', BidPrice = 102, AskPrice = 102\<rparr>"
    "\<not> TrailingStop partialExitPosition"
    "\<not> (StopLossOrderID partialExitPosition \<noteq> []
        \<and> observedFilled partialFillEnv (StopLossOrderID partialExitPosition))"
    "\<not> (TakeProfitOrderID partialExitPosition \<noteq> []
        \<and> observedFilled partialFillEnv (TakeProfitOrderID partialExitPosition))"
    "\<exists>oid \<in> set (PartialExitOrders partialExitPosition). observedFilled partialFillEnv oid"
    by (simp_all add: observedFilled_def scenario_defs)
  have h': "Status partialExitPosition = ''ACTIVE''"
    "GetLatestQuote partialFillStoreDown (Symbol partialExitPosition)
       = Some \<lparr>QuoteSymbol = ''SPY'', BidPrice = 102, AskPrice = 102\<rparr>"
    "\<not> TrailingStop partialExitPosition"
    "\<not> (StopLossOrderID partialExitPosition \<noteq> []
        \<and> observedFilled partialFillStoreDown (StopLossOrderID partialExitPosition))"
    "\<not> (TakeProfitOrderID partialExitPosition \<noteq> []
        \<and> observedFilled partialFillStoreDown (TakeProfitOrderID partialExitPosition))"
    "\<exists>oid \<in> set (PartialExitOrders partialExitPosition).
        observedFilled partialFillStoreDown oid"
    by (simp_all add: observedFilled_def scenario_defs)
  have q: "sum_list (map (filledQty partialFillEnv) (PartialExitOrders partialExitPosition)) = 5"
    "sum_list (map (filledQty partialFillStoreDown) (PartialExitOrders partialExitPosition))
       = 5"
    "RemainingQty partialExitPosition = 10"
    "StopLossOrderID partialExitPosition = ''stop-1''"
    "TakeProfitOrderID partialExitPosition = ''limit-1''"
    "events emptyEffects = []" "db emptyEffects = Map.empty"
    "ID partialExitPosition = ''pos_7''"
    "\<And>q. SaveManagedPosition partialFillEnv q"
    "\<And>q. \<not> SaveManagedPosition partialFillStoreDown q"
    by (simp_all add: filledQty_def scenario_defs)
  from partial_exit_fill[OF h, of emptyEffects] q
  have a: "\<exists>f' p'. checkPosition partialFillEnv emptyEffects partialExitPosition = Inr (f', p')
       \<and> Status p' = ''PARTIAL'' \<and> RemainingQty p' = 5
       \<and> StopLossOrderID p' = ''stop-1'' \<and> TakeProfitOrderID p' = ''limit-1''
       \<and> filter brokerWrite (events f') = []
       \<and> db f' = [''pos_7'' \<mapsto> p']"
    by auto
  from partial_exit_fill[OF h', of emptyEffects] q
  have b: "\<exists>f' p'. checkPosition partialFillStoreDown emptyEffects partialExitPosition
                  = Inr (f', p')
       \<and> Status p' = ''PARTIAL'' \<and> RemainingQty p' = 5
       \<and> SaveRequested p' \<in> set (events f')
       \<and> db f' = Map.empty"
    by auto
  from a b show ?thesis by blast
qed

text \<open>
  The claim as stated fails: in scenario S4 the remaining quantity drops to 5 while the
  record keeps the stop order \<open>stop-1\<close> and the take-profit order \<open>limit-1\<close>, which
  the broker still holds for 10 shares; the pass only polled and saved.
\<close>

theorem protective_orders_not_resized_counterexample:
  "checkPosition partialFillEnv emptyEffects partialExitPosition
     = Inr (\<lparr>db = [''pos_7'' \<mapsto> afterPartialFill],
             events = [QuoteRequested ''SPY'', OrderPolled ''stop-1'', OrderPolled ''limit-1'',
                       OrderPolled ''p1'', SaveRequested afterPartialFill]\<rparr>,
            afterPartialFill)
   \<and> RemainingQty afterPartialFill = 5
   \<and> StopLossOrderID afterPartialFill = ''stop-1''
   \<and> TakeProfitOrderID afterPartialFill = ''limit-1''
   \<and> map_option Qty (GetOrder partialFillEnv ''stop-1'') = Some 10
   \<and> map_option Qty (GetOrder partialFillEnv ''limit-1'') = Some 10"
  by (simp add: model_defs scenario_defs Let_def)

text \<open>
  A remark on the same function: \<^verbatim>\<open>checkPositions\<close> calls \<^verbatim>\<open>manageRiskOrders\<close> for the
  status ACTIVE only, so a pass over a position that is already PARTIAL polls no order and
  leaves its status and remaining quantity as they are.
\<close>

lemma partial_status_not_polled:
  assumes "Status position = ''PARTIAL''"
  shows "\<exists>f' p'. checkPosition E f position = Inr (f', p')
      \<and> Status p' = ''PARTIAL'' \<and> RemainingQty p' = RemainingQty position
      \<and> (\<forall>oid. OrderPolled oid \<in> set (events f') \<longrightarrow> OrderPolled oid \<in> set (events f))"
proof -
  obtain f1 p1 ok where upd: "updatePositionPrice E f position = (f1, p1, ok)"
    by (cases "updatePositionPrice E f position") auto
  note fr = updatePositionPrice_frame[OF upd]
  show ?thesis
  proof (cases "ok \<and> TrailingStop p1")
    case True
    obtain f2 p2 where t: "updateTrailingStop E f1 p1 = (f2, p2)"
      by (cases "updateTrailingStop E f1 p1") auto
    from updateTrailingStop_frame[OF t] fr assms True upd t show ?thesis
      by (simp add: checkPosition_def)
  next
    case False
    with fr assms upd show ?thesis
      by (cases ok) (auto simp: checkPosition_def)
  qed
qed

subsection \<open>Statuses and the stop price across passes\<close>

text \<open>
  C3, as the code has it. For a position whose status is CLOSED, STOPPED_OUT or FAILED, no
  sequence of supervisor passes changes the status; a manual close sets the status to
  CLOSED whatever it was before.
\<close>

theorem terminal_status_kept_by_passes:
  assumes "map_of (positions m) i = Some p"
    and "Status p = ''CLOSED'' \<or> Status p = ''STOPPED_OUT'' \<or> Status p = ''FAILED''"
  shows "(\<forall>Es m'. runPasses Es m = Inr m' \<longrightarrow>
            (\<exists>p'. map_of (positions m') i = Some p' \<and> Status p' = Status p))
       \<and> (\<forall>E. \<exists>m' p'. CloseManagedPosition E m i = Inr m'
            \<and> map_of (positions m') i = Some p' \<and> Status p' = ''CLOSED'')"
proof (intro conjI allI impI)
  fix Es m'
  assume run: "runPasses Es m = Inr m'"
  let ?R = "\<lambda>q q'. terminal q \<longrightarrow> Status q' = Status q"
  have "\<exists>p'. map_of (positions m') i = Some p' \<and> ?R p p'"
  proof (rule runPasses_rel[where R = ?R, OF _ _ _ run assms(1)])
    fix E g q g' q'
    assume "checkPosition E g q = Inr (g', q')"
    with checkPosition_terminal[of q E g] show "?R q q'"
      by (auto simp: terminal_def)
  qed (auto simp: terminal_def)
  with assms(2) show "\<exists>p'. map_of (positions m') i = Some p' \<and> Status p' = Status p"
    by (auto simp: terminal_def)
next
  fix E
  from CloseManagedPosition_closes[OF assms(1)]
  show "\<exists>m' p'. CloseManagedPosition E m i = Inr m'
            \<and> map_of (positions m') i = Some p' \<and> Status p' = ''CLOSED''" .
qed

theorem terminal_status_kept_by_passes_witness:
  "map_of (positions (managing stoppedOutPosition)) ''pos_7'' = Some stoppedOutPosition
   \<and> Status stoppedOutPosition = ''STOPPED_OUT''
   \<and> runPasses marks (managing stoppedOutPosition) = Inr (managing stoppedOutPosition)
   \<and> (\<exists>p'. map_of (positions (managing stoppedOutPosition)) ''pos_7'' = Some p'
         \<and> Status p' = Status stoppedOutPosition)
   \<and> (\<exists>m' p'. CloseManagedPosition acceptingEnv (managing stoppedOutPosition) ''pos_7'' = Inr m'
         \<and> map_of (positions m') ''pos_7'' = Some p' \<and> Status p' = ''CLOSED'')"
proof -
  have a: "map_of (positions (managing stoppedOutPosition)) ''pos_7'' = Some stoppedOutPosition"
    by (simp add: scenario_defs)
  have b: "Status stoppedOutPosition = ''CLOSED'' \<or> Status stoppedOutPosition = ''STOPPED_OUT''
           \<or> Status stoppedOutPosition = ''FAILED''"
    and b': "Status stoppedOutPosition = ''STOPPED_OUT''"
    by (simp_all add: scenario_defs)
  have r: "runPasses marks (managing stoppedOutPosition) = Inr (managing stoppedOutPosition)"
    by (simp add: checkPositions_def checkPosition_def scenario_defs)
  note t = terminal_status_kept_by_passes[OF a b]
  from t r have "\<exists>p'. map_of (positions (managing stoppedOutPosition)) ''pos_7'' = Some p'
         \<and> Status p' = Status stoppedOutPosition"
    by blast
  moreover from t have "\<exists>m' p'. CloseManagedPosition acceptingEnv (managing stoppedOutPosition)
         ''pos_7'' = Inr m' \<and> map_of (positions m') ''pos_7'' = Some p' \<and> Status p' = ''CLOSED''"
    by blast
  ultimately show ?thesis using a b' r by blast
qed

text \<open>
  The claim as stated fails: a manual close of a stopped-out position succeeds and leaves
  it CLOSED.
\<close>

theorem manual_close_overwrites_stopped_out_counterexample:
  "Status stoppedOutPosition = ''STOPPED_OUT''
   \<and> \<not> isl (CloseManagedPosition acceptingEnv (managing stoppedOutPosition) ''pos_7'')
   \<and> map (\<lambda>(k, p). (k, Status p))
        (positions (projr (CloseManagedPosition acceptingEnv (managing stoppedOutPosition)
           ''pos_7'')))
       = [(''pos_7'', ''CLOSED'')]"
  by (simp add: model_defs scenario_defs Let_def)

text \<open>
  C7. \<^verbatim>\<open>updateTrailingStop\<close> computes the candidate \<open>mark * (1 - pct / 100)\<close> for a long
  position (side buy) and \<open>mark * (1 + pct / 100)\<close> otherwise, and the stop price after it
  is the candidate exactly when the candidate is strictly higher (long) or strictly lower
  (short) than the current stop, the old stop otherwise. Consequently, over any sequence of
  passes that returns, the stop price of a long position never decreases and that of a
  short position never increases.
\<close>

theorem trailing_ratchet:
  "StopLossPrice (snd (updateTrailingStop E f position)) =
     (if Side position = ''buy''
      then (if CurrentPrice position * (1 - TrailingPercent position / 100)
                 > StopLossPrice position
            then CurrentPrice position * (1 - TrailingPercent position / 100)
            else StopLossPrice position)
      else (if CurrentPrice position * (1 + TrailingPercent position / 100)
                 < StopLossPrice position
            then CurrentPrice position * (1 + TrailingPercent position / 100)
            else StopLossPrice position))
   \<and> (\<forall>Es m m' i p. runPasses Es m = Inr m' \<and> map_of (positions m) i = Some p \<longrightarrow>
         (\<exists>p'. map_of (positions m') i = Some p' \<and> Side p' = Side p
            \<and> (Side p = ''buy'' \<longrightarrow> StopLossPrice p \<le> StopLossPrice p')
            \<and> (Side p \<noteq> ''buy'' \<longrightarrow> StopLossPrice p' \<le> StopLossPrice p)))"
proof (intro conjI allI impI)
  show "StopLossPrice (snd (updateTrailingStop E f position)) =
     (if Side position = ''buy''
      then (if CurrentPrice position * (1 - TrailingPercent position / 100)
                 > StopLossPrice position
            then CurrentPrice position * (1 - TrailingPercent position / 100)
            else StopLossPrice position)
      else (if CurrentPrice position * (1 + TrailingPercent position / 100)
                 < StopLossPrice position
            then CurrentPrice position * (1 + TrailingPercent position / 100)
            else StopLossPrice position))"
    by (rule updateTrailingStop_stop)
next
  fix Es m m' i p
  assume a: "runPasses Es m = Inr m' \<and> map_of (positions m) i = Some p"
  let ?R = "\<lambda>q q'. Side q' = Side q
     \<and> (Side q = ''buy'' \<longrightarrow> StopLossPrice q \<le> StopLossPrice q')
     \<and> (Side q \<noteq> ''buy'' \<longrightarrow> StopLossPrice q' \<le> StopLossPrice q)"
  show "\<exists>p'. map_of (positions m') i = Some p' \<and> ?R p p'"
  proof (rule runPasses_rel[where R = ?R])
    fix E g q g' q'
    assume "checkPosition E g q = Inr (g', q')"
    then show "?R q q'" by (rule checkPosition_ratchet)
  next
    fix q r s
    assume "?R q r" "?R r s"
    then show "?R q s" by auto
  qed (use a in auto)
qed

theorem trailing_ratchet_witness:
  "runPasses marks (managing trailingPosition)
     = Inr (projr (runPasses marks (managing trailingPosition)))
   \<and> map_of (positions (managing trailingPosition)) ''pos_7'' = Some trailingPosition
   \<and> (\<exists>p'. map_of (positions (projr (runPasses marks (managing trailingPosition)))) ''pos_7''
              = Some p'
         \<and> Side p' = ''buy'' \<and> 95 \<le> StopLossPrice p')
   \<and> map (\<lambda>(k, p). StopLossPrice p)
        (positions (projr (runPasses marks (managing trailingPosition)))) = [209 / 2]"
proof -
  have e: "\<not> isl (runPasses marks (managing trailingPosition))"
    and v: "map (\<lambda>(k, p). StopLossPrice p)
        (positions (projr (runPasses marks (managing trailingPosition)))) = [209 / 2]"
    by (simp_all add: model_defs scenario_defs Let_def)
  from e have a: "runPasses marks (managing trailingPosition)
     = Inr (projr (runPasses marks (managing trailingPosition)))"
    by simp
  have b: "map_of (positions (managing trailingPosition)) ''pos_7'' = Some trailingPosition"
    by (simp add: scenario_defs)
  have c: "Side trailingPosition = ''buy''" "StopLossPrice trailingPosition = 95"
    by (simp_all add: scenario_defs)
  from trailing_ratchet[of acceptingEnv emptyEffects trailingPosition, THEN conjunct2,
      rule_format, OF conjI[OF a b]] c
  have "\<exists>p'. map_of (positions (projr (runPasses marks (managing trailingPosition)))) ''pos_7''
              = Some p' \<and> Side p' = ''buy'' \<and> 95 \<le> StopLossPrice p'"
    by auto
  with a b v show ?thesis by blast
qed

subsection \<open>Listing\<close>

lemma listed_iff:
  "listed t s p \<longleftrightarrow>
     \<not> (Status p = ''PENDING'' \<and> t - CreatedAt p > 86400000000000)
     \<and> (s = [] \<or> Status p = s)"
  by (simp add: listed_def staleAfter_def)

text \<open>
  C9, as the code has it. With an empty filter the list is every record except the PENDING
  ones older than 24 hours. The filter \<open>all\<close> is not special: like any nonempty filter it
  selects the records whose status equals the filter string, stale PENDING records still
  left out, so it lists only records whose status is literally \<open>all\<close>.
\<close>

theorem list_filters:
  "ListManagedPositions t m [] =
     filter (\<lambda>p. \<not> (Status p = ''PENDING'' \<and> t - CreatedAt p > 86400000000000))
       (map snd (positions m))
   \<and> ListManagedPositions t m ''all'' =
       filter (\<lambda>p. Status p = ''all'') (map snd (positions m))
   \<and> (\<forall>s. s \<noteq> [] \<longrightarrow>
         ListManagedPositions t m s =
           filter (\<lambda>p. Status p = s
                     \<and> \<not> (Status p = ''PENDING'' \<and> t - CreatedAt p > 86400000000000))
             (map snd (positions m)))"
  by (auto simp: ListManagedPositions_def listed_iff intro!: filter_cong)

theorem list_filters_witness:
  "ListManagedPositions (3 + 86400000000001) twoPositions [] = [activePosition]
   \<and> ListManagedPositions (3 + 86400000000001) twoPositions ''ACTIVE'' = [activePosition]
   \<and> ListManagedPositions (3 + 86400000000001) twoPositions ''PENDING'' = []
   \<and> ListManagedPositions (3 + 86400000000000) twoPositions ''PENDING'' = [stalePending]"
  using list_filters[of "3 + 86400000000001" twoPositions]
    list_filters[of "3 + 86400000000000" twoPositions]
  by (simp add: scenario_defs)

text \<open>
  The claim as stated fails: with an active record and a stale pending one under
  management, the filter \<open>all\<close> lists nothing.
\<close>

theorem list_all_is_empty_counterexample:
  "ListManagedPositions (3 + 86400000000001) twoPositions ''all'' = []
   \<and> map snd (positions twoPositions) = [activePosition, stalePending]
   \<and> Status activePosition = ''ACTIVE''"
  by (simp add: ListManagedPositions_def listed_def staleAfter_def scenario_defs)

end
